theory Spec2Isabelle
  imports Main
begin

section \<open>The data of \<open>main.ts\<close>\<close>

text \<open>
  The plugin's configuration, \<open>interface GithubBlogSyncPluginSettings\<close>: six strings.
\<close>

record settings =
  githubUsername :: string
  githubRepoUrl :: string
  githubPersonalAccessToken :: string
  gitDirLocation :: string
  nameOfCommit :: string
  emailOfCommit :: string

text \<open>
  A value thrown by a library call and caught by a \<open>catch (e)\<close>. The template literals
  of the notices interpolate it (\<open>${e}\<close>), so the model carries the string that
  conversion yields.
\<close>

datatype error = Thrown string

fun to_string :: "error \<Rightarrow> string" where
  "to_string (Thrown s) = s"

text \<open>
  A row of the status matrix: the file path, then the head, worktree and stage status.
  The callback of \<open>SyncBlog\<close> destructures it as \<open>[filepath, , worktreeStatus]\<close>.
\<close>

type_synonym status_row = "string \<times> nat \<times> nat \<times> nat"

text \<open>
  What \<open>onAuth\<close> hands to the transport: the code returns \<open>{ username: PAT }\<close>, an
  object with no \<open>password\<close> field.
\<close>

datatype auth = Auth (username: string) (password: "string option")

text \<open>
  The calls into the version-control library, with the arguments the code passes:
  \<open>statusMatrix({dir})\<close>, \<open>add({dir, filepath})\<close>, \<open>remove({dir, filepath})\<close>,
  \<open>commit({dir, message, ref, author: {name, email}})\<close> and \<open>push({dir, url, onAuth})\<close>.
  The library's \<open>push\<close> also takes a \<open>ref\<close>, the branch to push; the third argument of
  \<open>Push\<close> is that parameter, \<open>None\<close> when the caller leaves it out.
\<close>

datatype git_call =
    is_StatusMatrix: StatusMatrix string
  | is_Add: Add string string
  | is_Remove: Remove string string
  | is_Commit: Commit string string string string string
  | is_Push: Push string string "string option" auth

text \<open>\<open>new Notice(message, duration?)\<close>: the text and the optional duration in milliseconds.\<close>

datatype notice = Notice string "nat option"

text \<open>
  How the promise of one \<open>add\<close> or \<open>remove\<close> settles: it is fulfilled, or it is rejected
  at some instant with an error. \<open>Promise.all\<close> rejects with the rejection that comes first.
\<close>

datatype outcome = Fulfilled | Rejected nat error

text \<open>
  Everything \<open>SyncBlog\<close> reads from outside: the vault's base path, \<open>path.join\<close>,
  \<open>os.hostname()\<close>, the string of \<open>new Date()\<close>, the branch checked out in the
  repository, and the answer of the library to each call.
\<close>

record env =
  getBasePath :: string
  path_join :: "string \<Rightarrow> string \<Rightarrow> string"
  os_hostname :: string
  new_Date :: string
  currentBranch :: string
  git_statusMatrix :: "string \<Rightarrow> error + status_row list"
  git_add :: "string \<Rightarrow> string \<Rightarrow> outcome"
  git_remove :: "string \<Rightarrow> string \<Rightarrow> outcome"
  git_commit :: "string \<Rightarrow> string \<Rightarrow> string \<Rightarrow> string \<Rightarrow> string \<Rightarrow> error option"
  git_push :: "string \<Rightarrow> string \<Rightarrow> string option \<Rightarrow> auth \<Rightarrow> error option"

text \<open>What one invocation did: the library calls in the order issued, the notices, the value returned.\<close>

record run =
  calls :: "git_call list"
  notices :: "notice list"
  returned :: "error option"

section \<open>\<open>String.prototype.includes\<close>\<close>

fun starts_with :: "string \<Rightarrow> string \<Rightarrow> bool" where
  "starts_with s [] = True"
| "starts_with [] (c # t) = False"
| "starts_with (d # s) (c # t) = (d = c \<and> starts_with s t)"

fun includes_str :: "string \<Rightarrow> string \<Rightarrow> bool" where
  "includes_str [] t = (t = [])"
| "includes_str (c # s) t = (starts_with (c # s) t \<or> includes_str s t)"

section \<open>\<open>Promise.all\<close>\<close>

text \<open>
  The elements are the values the \<open>map\<close> callback returned: \<open>None\<close> is \<open>undefined\<close>
  (the early \<open>return\<close>), which \<open>Promise.all\<close> takes as fulfilled. The result is the
  earliest rejection, the first in the list among equal instants.
\<close>

fun first_rejection :: "outcome option list \<Rightarrow> (nat \<times> error) option" where
  "first_rejection [] = None"
| "first_rejection (Some (Rejected t e) # ps) =
     (case first_rejection ps of
        None \<Rightarrow> Some (t, e)
      | Some (t', e') \<Rightarrow> if t' < t then Some (t', e') else Some (t, e))"
| "first_rejection (p # ps) = first_rejection ps"

definition Promise_all :: "outcome option list \<Rightarrow> error option" where
  "Promise_all ps = map_option snd (first_rejection ps)"

section \<open>\<open>SyncBlog\<close>\<close>

text \<open>The answer of the library to an \<open>add\<close> or a \<open>remove\<close>.\<close>

fun settle :: "env \<Rightarrow> git_call \<Rightarrow> outcome" where
  "settle E (Add dir filepath) = git_add E dir filepath"
| "settle E (Remove dir filepath) = git_remove E dir filepath"
| "settle E c = Fulfilled"

text \<open>
  The callback of \<open>status.map\<close> (lines 49 to 54 and 59 to 64), with the subdirectory as a
  parameter: the call it issues, or \<open>None\<close> where it returns early.
\<close>

fun stage_callback :: "env \<Rightarrow> string \<Rightarrow> string \<Rightarrow> status_row \<Rightarrow> git_call option" where
  "stage_callback E dir sub (filepath, head, worktreeStatus, stage) =
     (if includes_str filepath ''.DS_Store'' then None
      else Some (if worktreeStatus \<noteq> 0 then Add dir (path_join E sub filepath)
                 else Remove dir (path_join E sub filepath)))"

text \<open>
  One \<open>await git.statusMatrix(...).then(status => Promise.all(status.map(...)))\<close>: the calls
  issued and the rejection, if any. \<open>map\<close> runs over every row before anything is awaited.
\<close>

definition stage_subdir :: "env \<Rightarrow> string \<Rightarrow> string \<Rightarrow> git_call list \<times> error option" where
  "stage_subdir E dir sub =
     (let d = path_join E dir sub in
      case git_statusMatrix E d of
        Inl e \<Rightarrow> ([StatusMatrix d], Some e)
      | Inr status \<Rightarrow>
          (let issued = map (stage_callback E dir sub) status in
           (StatusMatrix d # List.map_filter id issued,
            Promise_all (map (map_option (settle E)) issued))))"

text \<open>The body of the first \<open>try\<close>: \<open>public\<close>, then \<open>content\<close>.\<close>

definition stage_step :: "env \<Rightarrow> string \<Rightarrow> git_call list \<times> error option" where
  "stage_step E dir =
     (case stage_subdir E dir ''public'' of
        (cs1, Some e) \<Rightarrow> (cs1, Some e)
      | (cs1, None) \<Rightarrow>
          (case stage_subdir E dir ''content'' of
             (cs2, r) \<Rightarrow> (cs1 @ cs2, r)))"

definition apostrophe :: char where
  "apostrophe = CHR 0x27"

definition msg_stage :: string where
  "msg_stage = ''Couldn'' @ [apostrophe] @ ''t add updated files. Problem: ''"

definition msg_commit :: string where
  "msg_commit = ''Couldn'' @ [apostrophe] @ ''t commit changes to the branch. Problem: ''"

definition msg_push :: string where
  "msg_push = ''Couldn'' @ [apostrophe] @ ''t push changes to the repository. Problem: ''"

definition SyncBlog :: "env \<Rightarrow> settings \<Rightarrow> run" where
  "SyncBlog E S =
     (let start = Notice ''Will push to repository'' None;
          NAME = nameOfCommit S;
          EMAIL = emailOfCommit S;
          PAT = githubPersonalAccessToken S;
          REPO = githubRepoUrl S;
          DIR = gitDirLocation S;
          dir = path_join E (getBasePath E) DIR
      in case stage_step E dir of
        (cs, Some e) \<Rightarrow>
          \<lparr>calls = cs,
           notices = [start, Notice (msg_stage @ to_string e) (Some 10000)],
           returned = Some e\<rparr>
      | (cs, None) \<Rightarrow>
          (let hostname = os_hostname E;
               message = hostname @ '' '' @ new_Date E;
               c = Commit dir message ''main'' NAME EMAIL
           in case git_commit E dir message ''main'' NAME EMAIL of
             Some e \<Rightarrow>
               \<lparr>calls = cs @ [c],
                notices = [start, Notice (msg_commit @ to_string e) (Some 10000)],
                returned = Some e\<rparr>
           | None \<Rightarrow>
               (let url = ''https://'' @ REPO;
                    a = Auth PAT None;
                    p = Push dir url None a
                in case git_push E dir url None a of
                  Some e \<Rightarrow>
                    \<lparr>calls = cs @ [c, p],
                     notices = [start, Notice (msg_push @ to_string e) (Some 10000)],
                     returned = Some e\<rparr>
                | None \<Rightarrow>
                    \<lparr>calls = cs @ [c, p],
                     notices = [start, Notice (''GitHub Blog Sync: Pushed to '' @ REPO) None],
                     returned = None\<rparr>)))"

text \<open>The repository directory of an invocation, \<open>dir\<close> in \<open>SyncBlog\<close>.\<close>

abbreviation root :: "env \<Rightarrow> settings \<Rightarrow> string" where
  "root E S \<equiv> path_join E (getBasePath E) (gitDirLocation S)"

text \<open>An \<open>add\<close> or a \<open>remove\<close>: the per-path operations of the staging step.\<close>

definition per_path :: "git_call \<Rightarrow> bool" where
  "per_path c = (is_Add c \<or> is_Remove c)"

text \<open>The per-path operations on one file path of the repository.\<close>

fun touches :: "string \<Rightarrow> git_call \<Rightarrow> bool" where
  "touches p (Add dir filepath) = (filepath = p)"
| "touches p (Remove dir filepath) = (filepath = p)"
| "touches p c = False"

text \<open>
  The rows a status computation hands to its \<open>then\<close> callback (none when it throws), and
  the condition that the two computations and \<open>path.join\<close> keep the files apart: the two
  subdirectories are different directories, each computation lists a path once, and no two
  listed paths are joined to the same path of the repository.
\<close>

fun rows_of :: "error + status_row list \<Rightarrow> status_row list" where
  "rows_of (Inl e) = []"
| "rows_of (Inr status) = status"

definition reported :: "env \<Rightarrow> string \<Rightarrow> string \<Rightarrow> status_row list" where
  "reported E dir sub = rows_of (git_statusMatrix E (path_join E dir sub))"

definition separated :: "env \<Rightarrow> string \<Rightarrow> bool" where
  "separated E dir =
     (path_join E dir ''public'' \<noteq> path_join E dir ''content'' \<and>
      distinct (map (\<lambda>row. path_join E ''public'' (fst row)) (reported E dir ''public'') @
                map (\<lambda>row. path_join E ''content'' (fst row)) (reported E dir ''content'')))"

text \<open>
  The per-path calls of one subdirectory, in the order of the reported rows: what the
  \<open>map\<close> callback issues over them.
\<close>

definition issued :: "env \<Rightarrow> string \<Rightarrow> string \<Rightarrow> git_call list" where
  "issued E dir sub = List.map_filter (stage_callback E dir sub) (reported E dir sub)"

text \<open>The calls that follow the staging step: none when it fails, else the commit, and the push after a commit that succeeds.\<close>

definition later_calls :: "env \<Rightarrow> settings \<Rightarrow> git_call list" where
  "later_calls E S =
     (let c = Commit (root E S) (os_hostname E @ '' '' @ new_Date E) ''main''
                (nameOfCommit S) (emailOfCommit S);
          p = Push (root E S) (''https://'' @ githubRepoUrl S) None
                (Auth (githubPersonalAccessToken S) None)
      in case snd (stage_step E (root E S)) of
           Some e \<Rightarrow> []
         | None \<Rightarrow>
             (case git_commit E (root E S) (os_hostname E @ '' '' @ new_Date E) ''main''
                     (nameOfCommit S) (emailOfCommit S) of
                Some e \<Rightarrow> [c]
              | None \<Rightarrow> [c, p]))"

text \<open>
  What the library answers to the per-path calls of a list: every \<open>add\<close> and
  \<open>remove\<close> of the list is fulfilled; or one of them is rejected and every rejection
  among them carries the error \<open>e\<close>.
\<close>

definition fulfilled :: "env \<Rightarrow> git_call list \<Rightarrow> bool" where
  "fulfilled E cs =
     ((\<forall>dir filepath. Add dir filepath \<in> set cs \<longrightarrow> git_add E dir filepath = Fulfilled) \<and>
      (\<forall>dir filepath. Remove dir filepath \<in> set cs \<longrightarrow> git_remove E dir filepath = Fulfilled))"

definition rejected_with :: "env \<Rightarrow> git_call list \<Rightarrow> error \<Rightarrow> bool" where
  "rejected_with E cs e =
     ((\<exists>dir filepath t.
         Add dir filepath \<in> set cs \<and> git_add E dir filepath = Rejected t e \<or>
         Remove dir filepath \<in> set cs \<and> git_remove E dir filepath = Rejected t e) \<and>
      (\<forall>dir filepath t e'.
         (Add dir filepath \<in> set cs \<longrightarrow> git_add E dir filepath = Rejected t e' \<longrightarrow> e' = e) \<and>
         (Remove dir filepath \<in> set cs \<longrightarrow> git_remove E dir filepath = Rejected t e' \<longrightarrow> e' = e)))"

text \<open>
  The branch a call writes to. A commit names it in \<open>ref\<close>. A push names it in \<open>ref\<close>
  too; the library pushes the checked-out branch when \<open>ref\<close> is left out.
\<close>

fun branch_of :: "env \<Rightarrow> git_call \<Rightarrow> string option" where
  "branch_of E (Commit dir message ref name email) = Some ref"
| "branch_of E (Push dir url None a) = Some (currentBranch E)"
| "branch_of E (Push dir url (Some ref) a) = Some ref"
| "branch_of E c = None"

text \<open>A row of a file that differs nowhere: in the head, unchanged in the worktree and the index.\<close>

fun unmodified :: "status_row \<Rightarrow> bool" where
  "unmodified (filepath, head, worktreeStatus, stage) =
     (head = 1 \<and> worktreeStatus = 1 \<and> stage = 1)"

section \<open>The settings tab\<close>

text \<open>
  The host's text component, as \<open>addText\<close> creates it: an input element of type
  \<open>text\<close>, empty. The callback of \<open>addText\<close> sets the placeholder, the value and the
  change handler; the handler stores the new value in the plugin's settings.
\<close>

record text_component =
  inputEl_type :: string
  placeholder :: string
  getValue :: string
  changed :: "string \<Rightarrow> settings \<Rightarrow> settings"

definition TextComponent :: text_component where
  "TextComponent = \<lparr>inputEl_type = ''text'', placeholder = [], getValue = [], changed = (\<lambda>v S. S)\<rparr>"

definition setPlaceholder :: "string \<Rightarrow> text_component \<Rightarrow> text_component" where
  "setPlaceholder p c = c\<lparr>placeholder := p\<rparr>"

definition setValue :: "string \<Rightarrow> text_component \<Rightarrow> text_component" where
  "setValue v c = c\<lparr>getValue := v\<rparr>"

definition onChange :: "(string \<Rightarrow> settings \<Rightarrow> settings) \<Rightarrow> text_component \<Rightarrow> text_component" where
  "onChange f c = c\<lparr>changed := f\<rparr>"

text \<open>What the input element shows: its value, or one bullet for each character of a password input.\<close>

definition shown :: "text_component \<Rightarrow> string" where
  "shown c = (if inputEl_type c = ''password'' then replicate (length (getValue c)) (CHR ''*'')
              else getValue c)"

record setting =
  name :: string
  desc :: string
  component :: text_component

text \<open>\<open>GithubBlogSyncSettingTab.display\<close>: the six settings added to the emptied container.\<close>

definition display :: "settings \<Rightarrow> setting list" where
  "display S =
     [\<lparr>name = ''GitHub Username'', desc = [],
       component = onChange (\<lambda>v S. S\<lparr>githubUsername := v\<rparr>)
         (setValue (githubUsername S) (setPlaceholder [] TextComponent))\<rparr>,
      \<lparr>name = ''GitHub Repository Url'', desc = ''In the format github.com/username/repository'',
       component = onChange (\<lambda>v S. S\<lparr>githubRepoUrl := v\<rparr>)
         (setValue (githubRepoUrl S) (setPlaceholder ''github.com/username/repository'' TextComponent))\<rparr>,
      \<lparr>name = ''GitHub Personal Access Token'', desc = ''In the format ghp_XXXXXXXXXXXXXXXXXXXXXXXX'',
       component = onChange (\<lambda>v S. S\<lparr>githubPersonalAccessToken := v\<rparr>)
         (setValue (githubPersonalAccessToken S) (setPlaceholder ''ghp_XXXXXXXXXXXXXXXXXXXXXXXX'' TextComponent))\<rparr>,
      \<lparr>name = ''GitHub Folder Location'', desc = [],
       component = onChange (\<lambda>v S. S\<lparr>gitDirLocation := v\<rparr>)
         (setValue (gitDirLocation S) (setPlaceholder ''/path/to/folder'' TextComponent))\<rparr>,
      \<lparr>name = ''GitHub Commit Name'', desc = [],
       component = onChange (\<lambda>v S. S\<lparr>nameOfCommit := v\<rparr>)
         (setValue (nameOfCommit S) (setPlaceholder [] TextComponent))\<rparr>,
      \<lparr>name = ''GitHub Commit Email'', desc = [],
       component = onChange (\<lambda>v S. S\<lparr>emailOfCommit := v\<rparr>)
         (setValue (emailOfCommit S) (setPlaceholder [] TextComponent))\<rparr>]"

section \<open>A vault to run the definitions on\<close>

text \<open>
  A vault at \<open>/vault\<close> with the checkout in \<open>blog\<close>. The parameters are the rows the
  status computation reports for \<open>public\<close> and for \<open>content\<close>, and the answers of
  \<open>remove\<close>, \<open>commit\<close> and \<open>push\<close>; every \<open>add\<close> is fulfilled. \<open>demo_rows\<close>
  holds a modified page, the noise file and a deleted page, \<open>demo_posts\<close> a new post.
\<close>

definition demo_rows :: "status_row list" where
  "demo_rows = [(''index.html'', 1, 2, 1), (''.DS_Store'', 0, 2, 0), (''old.html'', 1, 0, 1)]"

definition demo_posts :: "status_row list" where
  "demo_posts = [(''post.md'', 0, 2, 0)]"

definition demo_env ::
  "status_row list \<Rightarrow> status_row list \<Rightarrow> outcome \<Rightarrow> error option \<Rightarrow> error option \<Rightarrow> env" where
  "demo_env rows posts rm cm ps =
     \<lparr>getBasePath = ''/vault'',
      path_join = (\<lambda>a b. a @ ''/'' @ b),
      os_hostname = ''laptop'',
      new_Date = ''Tue Nov 03 2026 07:18:00 GMT+0000 (Coordinated Universal Time)'',
      currentBranch = ''main'',
      git_statusMatrix = (\<lambda>d. if d = ''/vault/blog/public'' then Inr rows
                              else if d = ''/vault/blog/content'' then Inr posts
                              else Inl (Thrown ''NotFoundError'')),
      git_add = (\<lambda>dir filepath. Fulfilled),
      git_remove = (\<lambda>dir filepath. rm),
      git_commit = (\<lambda>dir message ref name email. cm),
      git_push = (\<lambda>dir url ref a. ps)\<rparr>"

definition demo_settings :: settings where
  "demo_settings =
     \<lparr>githubUsername = ''mk'',
      githubRepoUrl = ''github.com/mk/blog'',
      githubPersonalAccessToken = ''ghp_s3cret'',
      gitDirLocation = ''blog'',
      nameOfCommit = ''M K'',
      emailOfCommit = ''mk@example.org''\<rparr>"

section \<open>The shape of a run\<close>

lemma first_rejection_None_iff:
  "first_rejection ps = None \<longleftrightarrow> (\<forall>t e. Some (Rejected t e) \<notin> set ps)"
  by (induction ps rule: first_rejection.induct) (auto split: option.splits)

lemma first_rejection_mem:
  "first_rejection ps = Some (t, e) \<Longrightarrow> Some (Rejected t e) \<in> set ps"
  by (induction ps arbitrary: t e rule: first_rejection.induct) (auto split: option.splits if_splits)

lemma Promise_all_None_iff:
  "Promise_all ps = None \<longleftrightarrow> (\<forall>t e. Some (Rejected t e) \<notin> set ps)"
  by (simp add: Promise_all_def first_rejection_None_iff)

lemma Promise_all_Some:
  "Promise_all ps = Some e \<Longrightarrow> \<exists>t. Some (Rejected t e) \<in> set ps"
  by (auto simp: Promise_all_def dest: first_rejection_mem)

lemma map_filter_id_map: "List.map_filter id (map f xs) = List.map_filter f xs"
  by (induction xs) (simp_all add: List.map_filter_simps split: option.splits)

lemma fst_stage_subdir:
  "fst (stage_subdir E dir sub) = StatusMatrix (path_join E dir sub) # issued E dir sub"
  by (simp add: stage_subdir_def issued_def reported_def Let_def map_filter_id_map
      List.map_filter_simps split: sum.splits)

lemma set_map_filter: "set (List.map_filter f xs) = {y. \<exists>x\<in>set xs. f x = Some y}"
  by (induction xs) (auto simp: List.map_filter_simps split: option.splits)

lemma rejected_in_issued_iff:
  "Some (Rejected t e) \<in> set (map (map_option g) (map f xs)) \<longleftrightarrow>
     (\<exists>c\<in>set (List.map_filter f xs). g c = Rejected t e)"
proof (induction xs)
  case Nil
  show ?case by (simp add: List.map_filter_simps)
next
  case (Cons x xs)
  show ?case
  proof (cases "f x")
    case None
    with Cons show ?thesis by (simp add: List.map_filter_simps)
  next
    case (Some c)
    with Cons show ?thesis by (auto simp: List.map_filter_simps)
  qed
qed

lemma Promise_all_issued_None_iff:
  "Promise_all (map (map_option g) (map f xs)) = None \<longleftrightarrow>
     (\<forall>c\<in>set (List.map_filter f xs). \<forall>t e. g c \<noteq> Rejected t e)"
  unfolding Promise_all_None_iff rejected_in_issued_iff by blast

lemma snd_stage_subdir_None_iff:
  "snd (stage_subdir E dir sub) = None \<longleftrightarrow>
     (\<exists>rows. git_statusMatrix E (path_join E dir sub) = Inr rows) \<and>
     (\<forall>c\<in>set (issued E dir sub). \<forall>t e. settle E c \<noteq> Rejected t e)"
proof (cases "git_statusMatrix E (path_join E dir sub)")
  case (Inl e)
  then show ?thesis by (simp add: stage_subdir_def)
next
  case (Inr rows)
  then have "snd (stage_subdir E dir sub) =
      Promise_all (map (map_option (settle E)) (map (stage_callback E dir sub) rows))"
    by (simp add: stage_subdir_def Let_def)
  moreover have "issued E dir sub = List.map_filter (stage_callback E dir sub) rows"
    using Inr by (simp add: issued_def reported_def)
  ultimately show ?thesis
    using Inr by (simp only: Promise_all_issued_None_iff) simp
qed

lemma snd_stage_subdir_Some:
  assumes "snd (stage_subdir E dir sub) = Some e"
  shows "git_statusMatrix E (path_join E dir sub) = Inl e \<or>
         (\<exists>c\<in>set (issued E dir sub). \<exists>t. settle E c = Rejected t e)"
proof (cases "git_statusMatrix E (path_join E dir sub)")
  case (Inl e')
  with assms show ?thesis by (simp add: stage_subdir_def)
next
  case (Inr rows)
  with assms have "Promise_all (map (map_option (settle E)) (map (stage_callback E dir sub) rows)) = Some e"
    by (simp add: stage_subdir_def Let_def)
  then obtain t where "Some (Rejected t e) \<in> set (map (map_option (settle E)) (map (stage_callback E dir sub) rows))"
    using Promise_all_Some by blast
  with Inr show ?thesis
    unfolding rejected_in_issued_iff by (auto simp: issued_def reported_def)
qed

lemma fst_stage_step:
  "fst (stage_step E dir) =
     fst (stage_subdir E dir ''public'') @
     (if snd (stage_subdir E dir ''public'') = None then fst (stage_subdir E dir ''content'') else [])"
  by (simp add: stage_step_def split: prod.splits option.splits)

lemma snd_stage_step:
  "snd (stage_step E dir) =
     (case snd (stage_subdir E dir ''public'') of
        Some e \<Rightarrow> Some e
      | None \<Rightarrow> snd (stage_subdir E dir ''content''))"
  by (simp add: stage_step_def split: prod.splits option.splits)

lemma calls_SyncBlog:
  "calls (SyncBlog E S) = fst (stage_step E (root E S)) @ later_calls E S"
proof (cases "stage_step E (root E S)")
  case (Pair cs r)
  then show ?thesis
    by (cases r) (simp_all add: SyncBlog_def later_calls_def Let_def split: option.splits)
qed

lemma issued_mem:
  "c \<in> set (issued E dir sub) \<longleftrightarrow>
     (\<exists>f h w s. (f, h, w, s) \<in> set (reported E dir sub) \<and> \<not> includes_str f ''.DS_Store'' \<and>
        c = (if w \<noteq> 0 then Add dir (path_join E sub f) else Remove dir (path_join E sub f)))"
  (is "?L \<longleftrightarrow> ?R")
proof
  assume ?L
  then obtain row where row: "row \<in> set (reported E dir sub)" "stage_callback E dir sub row = Some c"
    unfolding issued_def set_map_filter by blast
  obtain f h w s where "row = (f, h, w, s)" by (cases row)
  with row have "\<not> includes_str f ''.DS_Store''"
    and "c = (if w \<noteq> 0 then Add dir (path_join E sub f) else Remove dir (path_join E sub f))"
    by (simp_all split: if_splits)
  with row(1) \<open>row = (f, h, w, s)\<close> show ?R by blast
next
  assume ?R
  then obtain f h w s where r: "(f, h, w, s) \<in> set (reported E dir sub)"
    "\<not> includes_str f ''.DS_Store''"
    "c = (if w \<noteq> 0 then Add dir (path_join E sub f) else Remove dir (path_join E sub f))"
    by blast
  then have "stage_callback E dir sub (f, h, w, s) = Some c" by simp
  with r(1) show ?L
    unfolding issued_def set_map_filter by blast
qed

lemma issued_per_path:
  assumes "c \<in> set (issued E dir sub)"
  shows "per_path c"
proof -
  from assms obtain f w where
    "c = (if w \<noteq> (0::nat) then Add dir (path_join E sub f) else Remove dir (path_join E sub f))"
    unfolding issued_mem by blast
  then show ?thesis by (simp add: per_path_def)
qed

lemma later_calls_kind: "c \<in> set (later_calls E S) \<Longrightarrow> is_Commit c \<or> is_Push c"
  by (auto simp: later_calls_def Let_def split: option.splits)

lemma stage_calls_kind:
  "c \<in> set (fst (stage_step E dir)) \<Longrightarrow> is_StatusMatrix c \<or> per_path c"
  by (auto simp: fst_stage_step fst_stage_subdir dest: issued_per_path split: if_splits)

lemma stage_calls_not_later:
  "c \<in> set (fst (stage_step E dir)) \<Longrightarrow> \<not> is_Commit c \<and> \<not> is_Push c"
  by (cases c) (auto dest: stage_calls_kind simp: per_path_def)

lemma SyncBlog_stage_failed:
  assumes "snd (stage_step E (root E S)) = Some e"
  shows "SyncBlog E S =
    \<lparr>calls = fst (stage_step E (root E S)),
     notices = [Notice ''Will push to repository'' None, Notice (msg_stage @ to_string e) (Some 10000)],
     returned = Some e\<rparr>"
  using assms by (cases "stage_step E (root E S)") (simp add: SyncBlog_def Let_def)

lemma SyncBlog_commit_failed:
  assumes "snd (stage_step E (root E S)) = None"
    and "git_commit E (root E S) (os_hostname E @ '' '' @ new_Date E) ''main''
           (nameOfCommit S) (emailOfCommit S) = Some e"
  shows "SyncBlog E S =
    \<lparr>calls = fst (stage_step E (root E S)) @
       [Commit (root E S) (os_hostname E @ '' '' @ new_Date E) ''main'' (nameOfCommit S) (emailOfCommit S)],
     notices = [Notice ''Will push to repository'' None, Notice (msg_commit @ to_string e) (Some 10000)],
     returned = Some e\<rparr>"
  using assms by (cases "stage_step E (root E S)") (simp add: SyncBlog_def Let_def)

lemma SyncBlog_push_failed:
  assumes "snd (stage_step E (root E S)) = None"
    and "git_commit E (root E S) (os_hostname E @ '' '' @ new_Date E) ''main''
           (nameOfCommit S) (emailOfCommit S) = None"
    and "git_push E (root E S) (''https://'' @ githubRepoUrl S) None
           (Auth (githubPersonalAccessToken S) None) = Some e"
  shows "SyncBlog E S =
    \<lparr>calls = fst (stage_step E (root E S)) @
       [Commit (root E S) (os_hostname E @ '' '' @ new_Date E) ''main'' (nameOfCommit S) (emailOfCommit S),
        Push (root E S) (''https://'' @ githubRepoUrl S) None (Auth (githubPersonalAccessToken S) None)],
     notices = [Notice ''Will push to repository'' None, Notice (msg_push @ to_string e) (Some 10000)],
     returned = Some e\<rparr>"
  using assms by (cases "stage_step E (root E S)") (simp add: SyncBlog_def Let_def)

lemma filter_stage_calls_later:
  "filter is_Commit (fst (stage_step E dir)) = [] \<and> filter is_Push (fst (stage_step E dir)) = []"
  by (auto simp: filter_empty_conv dest: stage_calls_not_later)

lemma notin_map_neq: "p \<notin> set (map g xs) \<Longrightarrow> \<forall>x\<in>set xs. g x \<noteq> p"
  by force

lemma filter_touches_none:
  assumes "\<forall>row\<in>set rows. path_join E sub (fst row) \<noteq> p"
  shows "filter (touches p) (List.map_filter (stage_callback E dir sub) rows) = []"
  using assms
proof (induction rows)
  case Nil
  show ?case by (simp add: List.map_filter_simps)
next
  case (Cons r rows)
  obtain f h w s where r: "r = (f, h, w, s)" by (cases r)
  from Cons.prems have "path_join E sub f \<noteq> p" by (simp add: r)
  moreover from Cons have "filter (touches p) (List.map_filter (stage_callback E dir sub) rows) = []"
    by simp
  ultimately show ?case by (simp add: r List.map_filter_simps)
qed

lemma filter_touches_one:
  assumes "distinct (map (\<lambda>row. path_join E sub (fst row)) rows)"
    and "(f, h, w, s) \<in> set rows"
  shows "filter (touches (path_join E sub f)) (List.map_filter (stage_callback E dir sub) rows) =
     (if includes_str f ''.DS_Store'' then []
      else [if w \<noteq> 0 then Add dir (path_join E sub f) else Remove dir (path_join E sub f)])"
  using assms
proof (induction rows)
  case Nil
  then show ?case by simp
next
  case (Cons r rows)
  obtain f' h' w' s' where r: "r = (f', h', w', s')" by (cases r)
  show ?case
  proof (cases "(f, h, w, s) \<in> set rows")
    case True
    with Cons.prems(1) have ne: "path_join E sub f' \<noteq> path_join E sub f"
      by (force simp: r)
    from Cons.IH True Cons.prems(1)
    have "filter (touches (path_join E sub f)) (List.map_filter (stage_callback E dir sub) rows) =
        (if includes_str f ''.DS_Store'' then []
         else [if w \<noteq> 0 then Add dir (path_join E sub f) else Remove dir (path_join E sub f)])"
      by simp
    with ne show ?thesis by (simp add: r List.map_filter_simps)
  next
    case False
    with Cons.prems(2) have eq: "f' = f" "h' = h" "w' = w" "s' = s" by (simp_all add: r)
    from Cons.prems(1) have "path_join E sub f \<notin> set (map (\<lambda>row. path_join E sub (fst row)) rows)"
      by (simp add: r eq)
    then have "\<forall>row\<in>set rows. path_join E sub (fst row) \<noteq> path_join E sub f"
      by (rule notin_map_neq)
    then have "filter (touches (path_join E sub f)) (List.map_filter (stage_callback E dir sub) rows) = []"
      by (rule filter_touches_none)
    then show ?thesis by (simp add: r eq List.map_filter_simps)
  qed
qed

lemma filter_touches_later: "filter (touches p) (later_calls E S) = []"
  by (simp add: later_calls_def Let_def split: option.splits)

lemma filter_touches_calls:
  "filter (touches p) (calls (SyncBlog E S)) =
     filter (touches p) (issued E (root E S) ''public'') @
     (if snd (stage_subdir E (root E S) ''public'') = None
      then filter (touches p) (issued E (root E S) ''content'') else [])"
  by (simp add: calls_SyncBlog fst_stage_step fst_stage_subdir filter_touches_later)

lemma content_reached:
  assumes "path_join E (root E S) ''public'' \<noteq> path_join E (root E S) ''content''"
    and "StatusMatrix (path_join E (root E S) ''content'') \<in> set (calls (SyncBlog E S))"
  shows "snd (stage_subdir E (root E S) ''public'') = None"
proof (rule ccontr)
  assume n: "snd (stage_subdir E (root E S) ''public'') \<noteq> None"
  let ?c = "StatusMatrix (path_join E (root E S) ''content'')"
  have "?c \<notin> set (later_calls E S)"
    using later_calls_kind [of ?c E S] by auto
  moreover have "?c \<notin> set (issued E (root E S) ''public'')"
    using issued_per_path [of ?c E "root E S" "''public''"] by (auto simp: per_path_def)
  ultimately show False
    using assms n by (simp add: calls_SyncBlog fst_stage_step fst_stage_subdir)
qed

lemma settle_Rejected_iff:
  "settle E c = Rejected t e \<longleftrightarrow>
     (\<exists>dir filepath. c = Add dir filepath \<and> git_add E dir filepath = Rejected t e) \<or>
     (\<exists>dir filepath. c = Remove dir filepath \<and> git_remove E dir filepath = Rejected t e)"
  by (cases c) simp_all

lemma fulfilled_settle:
  assumes "\<forall>dir filepath. Add dir filepath \<in> set cs \<longrightarrow> git_add E dir filepath = Fulfilled"
    and "\<forall>dir filepath. Remove dir filepath \<in> set cs \<longrightarrow> git_remove E dir filepath = Fulfilled"
  shows "\<forall>c\<in>set cs. \<forall>t e. settle E c \<noteq> Rejected t e"
proof (intro ballI allI)
  fix c t e assume "c \<in> set cs"
  with assms show "settle E c \<noteq> Rejected t e"
    by (cases c) auto
qed

lemma settle_fulfilled:
  assumes "\<forall>c\<in>set cs. \<forall>t e. settle E c \<noteq> Rejected t e"
  shows "(\<forall>dir filepath. Add dir filepath \<in> set cs \<longrightarrow> git_add E dir filepath = Fulfilled) \<and>
         (\<forall>dir filepath. Remove dir filepath \<in> set cs \<longrightarrow> git_remove E dir filepath = Fulfilled)"
proof (intro conjI allI impI)
  fix dir filepath assume "Add dir filepath \<in> set cs"
  with assms have "\<forall>t e. settle E (Add dir filepath) \<noteq> Rejected t e" by blast
  then show "git_add E dir filepath = Fulfilled"
    by (cases "git_add E dir filepath") simp_all
next
  fix dir filepath assume "Remove dir filepath \<in> set cs"
  with assms have "\<forall>t e. settle E (Remove dir filepath) \<noteq> Rejected t e" by blast
  then show "git_remove E dir filepath = Fulfilled"
    by (cases "git_remove E dir filepath") simp_all
qed

lemma issued_status_Inr:
  assumes "c \<in> set (issued E dir sub)"
  shows "\<exists>rows. git_statusMatrix E (path_join E dir sub) = Inr rows"
proof (cases "git_statusMatrix E (path_join E dir sub)")
  case (Inl e)
  then have "issued E dir sub = []"
    by (simp add: issued_def reported_def List.map_filter_simps)
  with assms show ?thesis by simp
next
  case (Inr rows)
  then show ?thesis by blast
qed

lemma issued_rejected_stage_subdir:
  assumes "c \<in> set (issued E dir sub)" and "settle E c = Rejected t e"
  shows "\<exists>e' c' t'. snd (stage_subdir E dir sub) = Some e' \<and>
           c' \<in> set (issued E dir sub) \<and> settle E c' = Rejected t' e'"
proof -
  from assms have "snd (stage_subdir E dir sub) \<noteq> None"
    unfolding snd_stage_subdir_None_iff by blast
  then obtain e' where e': "snd (stage_subdir E dir sub) = Some e'" by blast
  from issued_status_Inr [OF assms(1)] have "git_statusMatrix E (path_join E dir sub) \<noteq> Inl e'"
    by auto
  with snd_stage_subdir_Some [OF e'] e' show ?thesis by blast
qed

lemma per_path_rejected_stage_fails:
  assumes "c \<in> set (calls (SyncBlog E S))" and "per_path c" and "settle E c = Rejected t e"
  shows "\<exists>e' c' t'. snd (stage_step E (root E S)) = Some e' \<and>
           c' \<in> set (fst (stage_step E (root E S))) \<and> settle E c' = Rejected t' e'"
proof -
  have "c \<notin> set (later_calls E S)"
    using assms(2) by (cases c) (auto dest: later_calls_kind simp: per_path_def)
  with assms(1) have "c \<in> set (fst (stage_step E (root E S)))"
    by (simp add: calls_SyncBlog)
  with assms(2) have "c \<in> set (issued E (root E S) ''public'') \<or>
      snd (stage_subdir E (root E S) ''public'') = None \<and> c \<in> set (issued E (root E S) ''content'')"
    by (auto simp: fst_stage_step fst_stage_subdir per_path_def split: if_splits)
  then show ?thesis
  proof
    assume "c \<in> set (issued E (root E S) ''public'')"
    from issued_rejected_stage_subdir [OF this assms(3)]
    obtain e' c' t' where "snd (stage_subdir E (root E S) ''public'') = Some e'"
      and "c' \<in> set (issued E (root E S) ''public'')" and "settle E c' = Rejected t' e'"
      by blast
    then have "snd (stage_step E (root E S)) = Some e' \<and>
        c' \<in> set (fst (stage_step E (root E S))) \<and> settle E c' = Rejected t' e'"
      by (simp add: snd_stage_step fst_stage_step fst_stage_subdir)
    then show ?thesis by blast
  next
    assume h: "snd (stage_subdir E (root E S) ''public'') = None \<and> c \<in> set (issued E (root E S) ''content'')"
    then have "c \<in> set (issued E (root E S) ''content'')" by simp
    from issued_rejected_stage_subdir [OF this assms(3)]
    obtain e' c' t' where "snd (stage_subdir E (root E S) ''content'') = Some e'"
      and "c' \<in> set (issued E (root E S) ''content'')" and "settle E c' = Rejected t' e'"
      by blast
    with h have "snd (stage_step E (root E S)) = Some e' \<and>
        c' \<in> set (fst (stage_step E (root E S))) \<and> settle E c' = Rejected t' e'"
      by (simp add: snd_stage_step fst_stage_step fst_stage_subdir)
    then show ?thesis by blast
  qed
qed

lemma msg_stage_text: "msg_stage = ''Couldn'' @ [CHR 0x27] @ ''t add updated files. Problem: ''"
  by (simp add: msg_stage_def apostrophe_def)

lemma msg_commit_text: "msg_commit = ''Couldn'' @ [CHR 0x27] @ ''t commit changes to the branch. Problem: ''"
  by (simp add: msg_commit_def apostrophe_def)

lemma msg_push_text: "msg_push = ''Couldn'' @ [CHR 0x27] @ ''t push changes to the repository. Problem: ''"
  by (simp add: msg_push_def apostrophe_def)

lemma fulfilled_no_rejection:
  "fulfilled E cs \<longleftrightarrow> (\<forall>c\<in>set cs. \<forall>t e. settle E c \<noteq> Rejected t e)"
  unfolding fulfilled_def using fulfilled_settle [of cs E] settle_fulfilled [of cs E] by blast

lemma stage_subdir_status_failed:
  assumes "git_statusMatrix E (path_join E dir sub) = Inl e"
  shows "stage_subdir E dir sub = ([StatusMatrix (path_join E dir sub)], Some e)"
  using assms by (simp add: stage_subdir_def)

lemma stage_subdir_fulfilled:
  assumes "git_statusMatrix E (path_join E dir sub) = Inr rows" and "fulfilled E (issued E dir sub)"
  shows "stage_subdir E dir sub = (StatusMatrix (path_join E dir sub) # issued E dir sub, None)"
proof (rule prod_eqI)
  show "fst (stage_subdir E dir sub) = fst (StatusMatrix (path_join E dir sub) # issued E dir sub, None)"
    by (simp add: fst_stage_subdir)
  from assms show "snd (stage_subdir E dir sub) =
      snd (StatusMatrix (path_join E dir sub) # issued E dir sub, None :: error option)"
    by (simp add: snd_stage_subdir_None_iff fulfilled_no_rejection)
qed

lemma stage_subdir_rejected:
  assumes "rejected_with E (issued E dir sub) e"
  shows "stage_subdir E dir sub = (StatusMatrix (path_join E dir sub) # issued E dir sub, Some e)"
proof (rule prod_eqI)
  show "fst (stage_subdir E dir sub) = fst (StatusMatrix (path_join E dir sub) # issued E dir sub, Some e)"
    by (simp add: fst_stage_subdir)
  from assms obtain c t where c: "c \<in> set (issued E dir sub)" and r: "settle E c = Rejected t e"
    unfolding rejected_with_def settle_Rejected_iff by blast
  from issued_rejected_stage_subdir [OF c r]
  obtain e' c' t' where e': "snd (stage_subdir E dir sub) = Some e'"
    and c': "c' \<in> set (issued E dir sub)" and r': "settle E c' = Rejected t' e'"
    by blast
  from r' have "(\<exists>d p. c' = Add d p \<and> git_add E d p = Rejected t' e') \<or>
      (\<exists>d p. c' = Remove d p \<and> git_remove E d p = Rejected t' e')"
    unfolding settle_Rejected_iff .
  with c' assms have "e' = e"
    unfolding rejected_with_def by blast
  with e' show "snd (stage_subdir E dir sub) =
      snd (StatusMatrix (path_join E dir sub) # issued E dir sub, Some e)"
    by simp
qed

lemma stage_step_public_status_failed:
  assumes "git_statusMatrix E (path_join E dir ''public'') = Inl e"
  shows "stage_step E dir = ([StatusMatrix (path_join E dir ''public'')], Some e)"
  by (simp add: stage_step_def stage_subdir_status_failed [OF assms])

lemma stage_step_public_rejected:
  assumes "rejected_with E (issued E dir ''public'') e"
  shows "stage_step E dir =
    (StatusMatrix (path_join E dir ''public'') # issued E dir ''public'', Some e)"
  by (simp add: stage_step_def stage_subdir_rejected [OF assms])

lemma stage_step_content_status_failed:
  assumes "git_statusMatrix E (path_join E dir ''public'') = Inr rows"
    and "fulfilled E (issued E dir ''public'')"
    and "git_statusMatrix E (path_join E dir ''content'') = Inl e"
  shows "stage_step E dir =
    (StatusMatrix (path_join E dir ''public'') # issued E dir ''public'' @
       [StatusMatrix (path_join E dir ''content'')], Some e)"
  by (simp add: stage_step_def stage_subdir_fulfilled [OF assms(1,2)]
      stage_subdir_status_failed [OF assms(3)])

lemma stage_step_content_rejected:
  assumes "git_statusMatrix E (path_join E dir ''public'') = Inr rows"
    and "fulfilled E (issued E dir ''public'')"
    and "rejected_with E (issued E dir ''content'') e"
  shows "stage_step E dir =
    (StatusMatrix (path_join E dir ''public'') # issued E dir ''public'' @
       StatusMatrix (path_join E dir ''content'') # issued E dir ''content'', Some e)"
  by (simp add: stage_step_def stage_subdir_fulfilled [OF assms(1,2)]
      stage_subdir_rejected [OF assms(3)])

lemma stage_step_fulfilled:
  assumes "git_statusMatrix E (path_join E dir ''public'') = Inr rows1"
    and "fulfilled E (issued E dir ''public'')"
    and "git_statusMatrix E (path_join E dir ''content'') = Inr rows2"
    and "fulfilled E (issued E dir ''content'')"
  shows "stage_step E dir =
    (StatusMatrix (path_join E dir ''public'') # issued E dir ''public'' @
       StatusMatrix (path_join E dir ''content'') # issued E dir ''content'', None)"
  by (simp add: stage_step_def stage_subdir_fulfilled [OF assms(1,2)]
      stage_subdir_fulfilled [OF assms(3,4)])

lemma SyncBlog_stage_failed_with:
  assumes "stage_step E (root E S) = (cs, Some e)"
  shows "SyncBlog E S =
    \<lparr>calls = cs,
     notices = [Notice ''Will push to repository'' None,
                Notice (''Couldn'' @ [CHR 0x27] @ ''t add updated files. Problem: '' @ to_string e)
                  (Some 10000)],
     returned = Some e\<rparr>"
  using SyncBlog_stage_failed [of E S e] assms by (simp add: msg_stage_text)

lemma staged_unmodified:
  assumes "\<forall>row\<in>set rows. unmodified row"
  shows "List.map_filter (stage_callback E dir sub) rows =
    map (\<lambda>row. Add dir (path_join E sub (fst row)))
      (filter (\<lambda>row. \<not> includes_str (fst row) ''.DS_Store'') rows)"
  using assms
proof (induction rows)
  case Nil
  show ?case by (simp add: List.map_filter_simps)
next
  case (Cons r rows)
  obtain f h w s where r: "r = (f, h, w, s)" by (cases r)
  from Cons.prems have "w = 1" by (simp add: r)
  moreover from Cons have "List.map_filter (stage_callback E dir sub) rows =
      map (\<lambda>row. Add dir (path_join E sub (fst row)))
        (filter (\<lambda>row. \<not> includes_str (fst row) ''.DS_Store'') rows)"
    by simp
  ultimately show ?case by (simp add: r List.map_filter_simps)
qed

lemma filter_later_calls:
  "filter is_Add (later_calls E S) = [] \<and> filter is_Remove (later_calls E S) = []"
  by (simp add: later_calls_def Let_def split: option.splits)

lemma filter_map_Add:
  "filter is_Add (map (\<lambda>row. Add dir (g row)) rows) = map (\<lambda>row. Add dir (g row)) rows \<and>
   filter is_Remove (map (\<lambda>row. Add dir (g row)) rows) = []"
  by (induction rows) simp_all

lemma SyncBlog_push_call:
  assumes "snd (stage_step E (root E S)) = None"
    and "git_commit E (root E S) (os_hostname E @ '' '' @ new_Date E) ''main''
           (nameOfCommit S) (emailOfCommit S) = None"
  shows "filter is_Push (calls (SyncBlog E S)) =
    [Push (root E S) (''https://'' @ githubRepoUrl S) None (Auth (githubPersonalAccessToken S) None)]"
  using assms
  by (simp add: calls_SyncBlog filter_stage_calls_later later_calls_def Let_def)

text \<open>The definitions a run on the demonstration vault unfolds.\<close>

lemmas demo = demo_env_def demo_settings_def demo_rows_def demo_posts_def
  stage_step_def stage_subdir_def Let_def Promise_all_def List.map_filter_simps

section \<open>The claims\<close>

text \<open>
  C1. Take a watched subdirectory whose status computation ran in the invocation, and a row
  it reported whose path does not contain \<open>.DS_Store\<close>. Among the calls of the
  invocation exactly one is a per-path operation on that path (the path joined to the name of
  the subdirectory): an \<open>add\<close> when the worktree status of the row is not zero, a
  \<open>remove\<close> when it is zero. The status computations are taken to list every path once
  and \<open>path.join\<close> to keep the listed paths apart (\<open>separated\<close>).
\<close>

theorem SyncBlog_one_operation_per_path:
  assumes "separated E (root E S)"
    and "sub = ''public'' \<or> sub = ''content''"
    and "StatusMatrix (path_join E (root E S) sub) \<in> set (calls (SyncBlog E S))"
    and "(filepath, head, worktreeStatus, stage) \<in> set (reported E (root E S) sub)"
    and "\<not> includes_str filepath ''.DS_Store''"
  shows "filter (touches (path_join E sub filepath)) (calls (SyncBlog E S)) =
     [if worktreeStatus \<noteq> 0 then Add (root E S) (path_join E sub filepath)
      else Remove (root E S) (path_join E sub filepath)]"
proof -
  let ?pub = "map (\<lambda>row. path_join E ''public'' (fst row)) (reported E (root E S) ''public'')"
  let ?con = "map (\<lambda>row. path_join E ''content'' (fst row)) (reported E (root E S) ''content'')"
  from assms(1) have d: "distinct ?pub" "distinct ?con" "set ?pub \<inter> set ?con = {}"
    and ne: "path_join E (root E S) ''public'' \<noteq> path_join E (root E S) ''content''"
    by (simp_all add: separated_def)
  from assms(2) show ?thesis
  proof
    assume sub: "sub = ''public''"
    with assms(4) have "path_join E sub filepath \<in> set ?pub" by force
    with d(3) have "path_join E sub filepath \<notin> set ?con" by blast
    then have "\<forall>row\<in>set (reported E (root E S) ''content'').
        path_join E ''content'' (fst row) \<noteq> path_join E sub filepath"
      by (rule notin_map_neq)
    then have "filter (touches (path_join E sub filepath)) (issued E (root E S) ''content'') = []"
      unfolding issued_def by (rule filter_touches_none)
    moreover have "filter (touches (path_join E sub filepath)) (issued E (root E S) ''public'') =
        [if worktreeStatus \<noteq> 0 then Add (root E S) (path_join E sub filepath)
         else Remove (root E S) (path_join E sub filepath)]"
      unfolding issued_def sub
      using filter_touches_one [OF d(1) assms(4) [unfolded sub], of "root E S"] assms(5)
      by simp
    ultimately show ?thesis by (simp add: filter_touches_calls)
  next
    assume sub: "sub = ''content''"
    with assms(3) ne have ok: "snd (stage_subdir E (root E S) ''public'') = None"
      by (simp add: content_reached)
    from sub assms(4) have "path_join E sub filepath \<in> set ?con" by force
    with d(3) have "path_join E sub filepath \<notin> set ?pub" by blast
    then have "\<forall>row\<in>set (reported E (root E S) ''public'').
        path_join E ''public'' (fst row) \<noteq> path_join E sub filepath"
      by (rule notin_map_neq)
    then have "filter (touches (path_join E sub filepath)) (issued E (root E S) ''public'') = []"
      unfolding issued_def by (rule filter_touches_none)
    moreover have "filter (touches (path_join E sub filepath)) (issued E (root E S) ''content'') =
        [if worktreeStatus \<noteq> 0 then Add (root E S) (path_join E sub filepath)
         else Remove (root E S) (path_join E sub filepath)]"
      unfolding issued_def sub
      using filter_touches_one [OF d(2) assms(4) [unfolded sub], of "root E S"] assms(5)
      by simp
    ultimately show ?thesis by (simp add: filter_touches_calls ok)
  qed
qed

theorem SyncBlog_one_operation_per_path_witness:
  "separated (demo_env demo_rows demo_posts Fulfilled None None) ''/vault/blog'' \<and>
   StatusMatrix ''/vault/blog/content'' \<in>
     set (calls (SyncBlog (demo_env demo_rows demo_posts Fulfilled None None) demo_settings)) \<and>
   (''post.md'', 0, 2, 0) \<in>
     set (reported (demo_env demo_rows demo_posts Fulfilled None None) ''/vault/blog'' ''content'') \<and>
   \<not> includes_str ''post.md'' ''.DS_Store'' \<and>
   filter (touches ''content/post.md'')
     (calls (SyncBlog (demo_env demo_rows demo_posts Fulfilled None None) demo_settings)) =
     [Add ''/vault/blog'' ''content/post.md''] \<and>
   (''old.html'', 1, 0, 1) \<in>
     set (reported (demo_env demo_rows demo_posts Fulfilled None None) ''/vault/blog'' ''public'') \<and>
   \<not> includes_str ''old.html'' ''.DS_Store'' \<and>
   filter (touches ''public/old.html'')
     (calls (SyncBlog (demo_env demo_rows demo_posts Fulfilled None None) demo_settings)) =
     [Remove ''/vault/blog'' ''public/old.html'']"
proof -
  let ?E = "demo_env demo_rows demo_posts Fulfilled None None"
  have r: "root ?E demo_settings = ''/vault/blog''"
    by (simp add: demo_env_def demo_settings_def)
  have h1: "separated ?E (root ?E demo_settings)"
    by (simp add: separated_def reported_def demo)
  have h2: "StatusMatrix (path_join ?E (root ?E demo_settings) ''content'') \<in>
      set (calls (SyncBlog ?E demo_settings))"
    by (simp add: SyncBlog_def demo)
  have h3: "(''post.md'', 0, 2, 0) \<in> set (reported ?E (root ?E demo_settings) ''content'')"
    by (simp add: reported_def demo)
  have h4: "\<not> includes_str ''post.md'' ''.DS_Store''"
    by simp
  have g2: "StatusMatrix (path_join ?E (root ?E demo_settings) ''public'') \<in>
      set (calls (SyncBlog ?E demo_settings))"
    by (simp add: SyncBlog_def demo)
  have g3: "(''old.html'', 1, 0, 1) \<in> set (reported ?E (root ?E demo_settings) ''public'')"
    by (simp add: reported_def demo)
  have g4: "\<not> includes_str ''old.html'' ''.DS_Store''"
    by simp
  have a: "filter (touches (path_join ?E ''content'' ''post.md'')) (calls (SyncBlog ?E demo_settings)) =
      [if (2::nat) \<noteq> 0 then Add (root ?E demo_settings) (path_join ?E ''content'' ''post.md'')
       else Remove (root ?E demo_settings) (path_join ?E ''content'' ''post.md'')]"
    by (rule SyncBlog_one_operation_per_path [OF h1 _ h2 h3 h4]) simp
  have b: "filter (touches (path_join ?E ''public'' ''old.html'')) (calls (SyncBlog ?E demo_settings)) =
      [if (0::nat) \<noteq> 0 then Add (root ?E demo_settings) (path_join ?E ''public'' ''old.html'')
       else Remove (root ?E demo_settings) (path_join ?E ''public'' ''old.html'')]"
    by (rule SyncBlog_one_operation_per_path [OF h1 _ g2 g3 g4]) simp
  have pj: "path_join ?E ''content'' ''post.md'' = ''content/post.md''"
    "path_join ?E ''public'' ''old.html'' = ''public/old.html''"
    "path_join ?E ''/vault/blog'' ''content'' = ''/vault/blog/content''"
    by (simp_all add: demo_env_def)
  from h1 h2 h3 h4 g3 g4 a b show ?thesis
    unfolding r pj by simp
qed

text \<open>
  C2. When the staging step succeeds, the invocation issues exactly one commit: in the
  repository directory, on the branch \<open>main\<close>, with the configured author name and
  email as they are, and with the message made of the hostname, one space and the string of
  the current date.
\<close>

theorem SyncBlog_commits_once:
  assumes "snd (stage_step E (root E S)) = None"
  shows "filter is_Commit (calls (SyncBlog E S)) =
    [Commit (root E S) (os_hostname E @ '' '' @ new_Date E) ''main'' (nameOfCommit S) (emailOfCommit S)]"
  using assms
  by (simp add: calls_SyncBlog filter_stage_calls_later later_calls_def Let_def split: option.splits)

theorem SyncBlog_commits_once_witness:
  "snd (stage_step (demo_env demo_rows demo_posts Fulfilled None None) ''/vault/blog'') = None \<and>
   filter is_Commit (calls (SyncBlog (demo_env demo_rows demo_posts Fulfilled None None) demo_settings)) =
     [Commit ''/vault/blog''
        ''laptop Tue Nov 03 2026 07:18:00 GMT+0000 (Coordinated Universal Time)''
        ''main'' ''M K'' ''mk@example.org'']"
proof -
  have h: "snd (stage_step (demo_env demo_rows demo_posts Fulfilled None None)
             (root (demo_env demo_rows demo_posts Fulfilled None None) demo_settings)) = None"
    by (simp add: demo)
  from SyncBlog_commits_once [OF h] h show ?thesis
    by (simp add: demo_env_def demo_settings_def)
qed

text \<open>
  C3. The push goes to the configured repository path prefixed with \<open>https://\<close>, with
  the access token as the user name and no password given, but it names no branch: the call
  leaves \<open>ref\<close> out, where the commit before it names \<open>main\<close>. On a checkout whose
  current branch is \<open>dev\<close> the commit is made on \<open>main\<close> and the branch pushed is
  \<open>dev\<close>.
\<close>

theorem SyncBlog_pushes_checked_out_branch:
  "currentBranch ((demo_env demo_rows demo_posts Fulfilled None None)\<lparr>currentBranch := ''dev''\<rparr>) =
     ''dev'' \<and>
   filter is_Commit
     (calls (SyncBlog ((demo_env demo_rows demo_posts Fulfilled None None)\<lparr>currentBranch := ''dev''\<rparr>)
        demo_settings)) =
     [Commit ''/vault/blog''
        ''laptop Tue Nov 03 2026 07:18:00 GMT+0000 (Coordinated Universal Time)''
        ''main'' ''M K'' ''mk@example.org''] \<and>
   filter is_Push
     (calls (SyncBlog ((demo_env demo_rows demo_posts Fulfilled None None)\<lparr>currentBranch := ''dev''\<rparr>)
        demo_settings)) =
     [Push ''/vault/blog'' ''https://github.com/mk/blog'' None (Auth ''ghp_s3cret'' None)] \<and>
   map (branch_of ((demo_env demo_rows demo_posts Fulfilled None None)\<lparr>currentBranch := ''dev''\<rparr>))
     (filter is_Commit
        (calls (SyncBlog ((demo_env demo_rows demo_posts Fulfilled None None)\<lparr>currentBranch := ''dev''\<rparr>)
           demo_settings))) = [Some ''main''] \<and>
   map (branch_of ((demo_env demo_rows demo_posts Fulfilled None None)\<lparr>currentBranch := ''dev''\<rparr>))
     (filter is_Push
        (calls (SyncBlog ((demo_env demo_rows demo_posts Fulfilled None None)\<lparr>currentBranch := ''dev''\<rparr>)
           demo_settings))) = [Some ''dev'']"
proof -
  let ?E = "(demo_env demo_rows demo_posts Fulfilled None None)\<lparr>currentBranch := ''dev''\<rparr>"
  have h: "snd (stage_step ?E (root ?E demo_settings)) = None"
    by (simp add: demo)
  have c: "git_commit ?E (root ?E demo_settings) (os_hostname ?E @ '' '' @ new_Date ?E) ''main''
      (nameOfCommit demo_settings) (emailOfCommit demo_settings) = None"
    by (simp add: demo_env_def)
  have p: "filter is_Push (calls (SyncBlog ?E demo_settings)) =
      [Push ''/vault/blog'' ''https://github.com/mk/blog'' None (Auth ''ghp_s3cret'' None)]"
    using SyncBlog_push_call [OF h c] by (simp add: demo_env_def demo_settings_def)
  have m: "filter is_Commit (calls (SyncBlog ?E demo_settings)) =
      [Commit ''/vault/blog''
         ''laptop Tue Nov 03 2026 07:18:00 GMT+0000 (Coordinated Universal Time)''
         ''main'' ''M K'' ''mk@example.org'']"
    using h by (simp add: calls_SyncBlog filter_stage_calls_later later_calls_def Let_def
        demo_env_def demo_settings_def)
  have b: "currentBranch ?E = ''dev''" by simp
  show ?thesis
    unfolding p m using b by simp
qed

text \<open>
  C4. Each step fails at its own boundary, and the run at the failure is the calls up to it, the
  notice of the step with the description of the error for 10000 milliseconds, and the error
  returned; nothing is repeated and nothing follows. The staging step fails when the status
  computation of \<open>public\<close> throws; when a per-path call of \<open>public\<close> is rejected; when,
  these fulfilled, the status computation of \<open>content\<close> throws; and when a per-path call
  of \<open>content\<close> is rejected. The commit fails after a staging step in which both status
  computations answered and every per-path call was fulfilled, and the push after a commit
  that succeeded. A rejected list of calls is taken to carry one error \<open>e\<close>, which is then
  the one \<open>Promise.all\<close> rejects with.
\<close>

theorem SyncBlog_step_failure:
  "let R = root E S;
       PD = path_join E R ''public'';
       CD = path_join E R ''content'';
       P = issued E R ''public'';
       C = issued E R ''content'';
       message = os_hostname E @ '' '' @ new_Date E;
       commit = Commit R message ''main'' (nameOfCommit S) (emailOfCommit S);
       url = ''https://'' @ githubRepoUrl S;
       push = Push R url None (Auth (githubPersonalAccessToken S) None);
       start = Notice ''Will push to repository'' None;
       fulfilled = (\<lambda>cs.
         (\<forall>dir filepath. Add dir filepath \<in> set cs \<longrightarrow> git_add E dir filepath = Fulfilled) \<and>
         (\<forall>dir filepath. Remove dir filepath \<in> set cs \<longrightarrow> git_remove E dir filepath = Fulfilled));
       rejected = (\<lambda>cs.
         (\<exists>dir filepath t.
            Add dir filepath \<in> set cs \<and> git_add E dir filepath = Rejected t e \<or>
            Remove dir filepath \<in> set cs \<and> git_remove E dir filepath = Rejected t e) \<and>
         (\<forall>dir filepath t e'.
            (Add dir filepath \<in> set cs \<longrightarrow> git_add E dir filepath = Rejected t e' \<longrightarrow> e' = e) \<and>
            (Remove dir filepath \<in> set cs \<longrightarrow> git_remove E dir filepath = Rejected t e' \<longrightarrow> e' = e)));
       staged = ((\<exists>rows. git_statusMatrix E PD = Inr rows) \<and> fulfilled P \<and>
                 (\<exists>rows. git_statusMatrix E CD = Inr rows) \<and> fulfilled C);
       stage_failure = (\<lambda>cs.
         \<lparr>calls = cs,
          notices = [start,
                     Notice (''Couldn'' @ [CHR 0x27] @ ''t add updated files. Problem: '' @ to_string e)
                       (Some 10000)],
          returned = Some e\<rparr>)
   in (git_statusMatrix E PD = Inl e \<longrightarrow> SyncBlog E S = stage_failure [StatusMatrix PD]) \<and>
      (rejected P \<longrightarrow> SyncBlog E S = stage_failure (StatusMatrix PD # P)) \<and>
      ((\<exists>rows. git_statusMatrix E PD = Inr rows) \<and> fulfilled P \<and> git_statusMatrix E CD = Inl e \<longrightarrow>
         SyncBlog E S = stage_failure (StatusMatrix PD # P @ [StatusMatrix CD])) \<and>
      ((\<exists>rows. git_statusMatrix E PD = Inr rows) \<and> fulfilled P \<and> rejected C \<longrightarrow>
         SyncBlog E S = stage_failure (StatusMatrix PD # P @ StatusMatrix CD # C)) \<and>
      (staged \<and> git_commit E R message ''main'' (nameOfCommit S) (emailOfCommit S) = Some e \<longrightarrow>
         SyncBlog E S =
           \<lparr>calls = StatusMatrix PD # P @ StatusMatrix CD # C @ [commit],
            notices = [start,
                       Notice (''Couldn'' @ [CHR 0x27] @ ''t commit changes to the branch. Problem: '' @
                               to_string e) (Some 10000)],
            returned = Some e\<rparr>) \<and>
      (staged \<and> git_commit E R message ''main'' (nameOfCommit S) (emailOfCommit S) = None \<and>
       git_push E R url None (Auth (githubPersonalAccessToken S) None) = Some e \<longrightarrow>
         SyncBlog E S =
           \<lparr>calls = StatusMatrix PD # P @ StatusMatrix CD # C @ [commit, push],
            notices = [start,
                       Notice (''Couldn'' @ [CHR 0x27] @ ''t push changes to the repository. Problem: '' @
                               to_string e) (Some 10000)],
            returned = Some e\<rparr>)"
  unfolding Let_def fulfilled_def [symmetric] rejected_with_def [symmetric]
proof (intro conjI impI)
  assume "git_statusMatrix E (path_join E (root E S) ''public'') = Inl e"
  from SyncBlog_stage_failed_with [OF stage_step_public_status_failed [OF this]]
  show "SyncBlog E S =
    \<lparr>calls = [StatusMatrix (path_join E (root E S) ''public'')],
     notices = [Notice ''Will push to repository'' None,
                Notice (''Couldn'' @ [CHR 0x27] @ ''t add updated files. Problem: '' @ to_string e)
                  (Some 10000)],
     returned = Some e\<rparr>" .
next
  assume "rejected_with E (issued E (root E S) ''public'') e"
  from SyncBlog_stage_failed_with [OF stage_step_public_rejected [OF this]]
  show "SyncBlog E S =
    \<lparr>calls = StatusMatrix (path_join E (root E S) ''public'') # issued E (root E S) ''public'',
     notices = [Notice ''Will push to repository'' None,
                Notice (''Couldn'' @ [CHR 0x27] @ ''t add updated files. Problem: '' @ to_string e)
                  (Some 10000)],
     returned = Some e\<rparr>" .
next
  assume "(\<exists>rows. git_statusMatrix E (path_join E (root E S) ''public'') = Inr rows) \<and>
    fulfilled E (issued E (root E S) ''public'') \<and>
    git_statusMatrix E (path_join E (root E S) ''content'') = Inl e"
  then obtain rows where "git_statusMatrix E (path_join E (root E S) ''public'') = Inr rows"
    and "fulfilled E (issued E (root E S) ''public'')"
    and "git_statusMatrix E (path_join E (root E S) ''content'') = Inl e"
    by blast
  from SyncBlog_stage_failed_with [OF stage_step_content_status_failed [OF this]]
  show "SyncBlog E S =
    \<lparr>calls = StatusMatrix (path_join E (root E S) ''public'') # issued E (root E S) ''public'' @
       [StatusMatrix (path_join E (root E S) ''content'')],
     notices = [Notice ''Will push to repository'' None,
                Notice (''Couldn'' @ [CHR 0x27] @ ''t add updated files. Problem: '' @ to_string e)
                  (Some 10000)],
     returned = Some e\<rparr>" .
next
  assume "(\<exists>rows. git_statusMatrix E (path_join E (root E S) ''public'') = Inr rows) \<and>
    fulfilled E (issued E (root E S) ''public'') \<and>
    rejected_with E (issued E (root E S) ''content'') e"
  then obtain rows where "git_statusMatrix E (path_join E (root E S) ''public'') = Inr rows"
    and "fulfilled E (issued E (root E S) ''public'')"
    and "rejected_with E (issued E (root E S) ''content'') e"
    by blast
  from SyncBlog_stage_failed_with [OF stage_step_content_rejected [OF this]]
  show "SyncBlog E S =
    \<lparr>calls = StatusMatrix (path_join E (root E S) ''public'') # issued E (root E S) ''public'' @
       StatusMatrix (path_join E (root E S) ''content'') # issued E (root E S) ''content'',
     notices = [Notice ''Will push to repository'' None,
                Notice (''Couldn'' @ [CHR 0x27] @ ''t add updated files. Problem: '' @ to_string e)
                  (Some 10000)],
     returned = Some e\<rparr>" .
next
  assume "((\<exists>rows. git_statusMatrix E (path_join E (root E S) ''public'') = Inr rows) \<and>
     fulfilled E (issued E (root E S) ''public'') \<and>
     (\<exists>rows. git_statusMatrix E (path_join E (root E S) ''content'') = Inr rows) \<and>
     fulfilled E (issued E (root E S) ''content'')) \<and>
    git_commit E (root E S) (os_hostname E @ '' '' @ new_Date E) ''main''
      (nameOfCommit S) (emailOfCommit S) = Some e"
  then obtain rows1 rows2 where "git_statusMatrix E (path_join E (root E S) ''public'') = Inr rows1"
    and "fulfilled E (issued E (root E S) ''public'')"
    and "git_statusMatrix E (path_join E (root E S) ''content'') = Inr rows2"
    and "fulfilled E (issued E (root E S) ''content'')"
    and c: "git_commit E (root E S) (os_hostname E @ '' '' @ new_Date E) ''main''
      (nameOfCommit S) (emailOfCommit S) = Some e"
    by blast
  from stage_step_fulfilled [OF this(1-4)]
  have st: "stage_step E (root E S) =
    (StatusMatrix (path_join E (root E S) ''public'') # issued E (root E S) ''public'' @
       StatusMatrix (path_join E (root E S) ''content'') # issued E (root E S) ''content'', None)" .
  then have "snd (stage_step E (root E S)) = None" by simp
  from SyncBlog_commit_failed [OF this c]
  show "SyncBlog E S =
    \<lparr>calls = StatusMatrix (path_join E (root E S) ''public'') # issued E (root E S) ''public'' @
       StatusMatrix (path_join E (root E S) ''content'') # issued E (root E S) ''content'' @
       [Commit (root E S) (os_hostname E @ '' '' @ new_Date E) ''main''
          (nameOfCommit S) (emailOfCommit S)],
     notices = [Notice ''Will push to repository'' None,
                Notice (''Couldn'' @ [CHR 0x27] @ ''t commit changes to the branch. Problem: '' @
                        to_string e) (Some 10000)],
     returned = Some e\<rparr>"
    by (simp add: st msg_commit_text)
next
  assume "((\<exists>rows. git_statusMatrix E (path_join E (root E S) ''public'') = Inr rows) \<and>
     fulfilled E (issued E (root E S) ''public'') \<and>
     (\<exists>rows. git_statusMatrix E (path_join E (root E S) ''content'') = Inr rows) \<and>
     fulfilled E (issued E (root E S) ''content'')) \<and>
    git_commit E (root E S) (os_hostname E @ '' '' @ new_Date E) ''main''
      (nameOfCommit S) (emailOfCommit S) = None \<and>
    git_push E (root E S) (''https://'' @ githubRepoUrl S) None
      (Auth (githubPersonalAccessToken S) None) = Some e"
  then obtain rows1 rows2 where "git_statusMatrix E (path_join E (root E S) ''public'') = Inr rows1"
    and "fulfilled E (issued E (root E S) ''public'')"
    and "git_statusMatrix E (path_join E (root E S) ''content'') = Inr rows2"
    and "fulfilled E (issued E (root E S) ''content'')"
    and c: "git_commit E (root E S) (os_hostname E @ '' '' @ new_Date E) ''main''
      (nameOfCommit S) (emailOfCommit S) = None"
    and p: "git_push E (root E S) (''https://'' @ githubRepoUrl S) None
      (Auth (githubPersonalAccessToken S) None) = Some e"
    by blast
  from stage_step_fulfilled [OF this(1-4)]
  have st: "stage_step E (root E S) =
    (StatusMatrix (path_join E (root E S) ''public'') # issued E (root E S) ''public'' @
       StatusMatrix (path_join E (root E S) ''content'') # issued E (root E S) ''content'', None)" .
  then have "snd (stage_step E (root E S)) = None" by simp
  from SyncBlog_push_failed [OF this c p]
  show "SyncBlog E S =
    \<lparr>calls = StatusMatrix (path_join E (root E S) ''public'') # issued E (root E S) ''public'' @
       StatusMatrix (path_join E (root E S) ''content'') # issued E (root E S) ''content'' @
       [Commit (root E S) (os_hostname E @ '' '' @ new_Date E) ''main''
          (nameOfCommit S) (emailOfCommit S),
        Push (root E S) (''https://'' @ githubRepoUrl S) None
          (Auth (githubPersonalAccessToken S) None)],
     notices = [Notice ''Will push to repository'' None,
                Notice (''Couldn'' @ [CHR 0x27] @ ''t push changes to the repository. Problem: '' @
                        to_string e) (Some 10000)],
     returned = Some e\<rparr>"
    by (simp add: st msg_push_text)
qed

theorem SyncBlog_step_failure_witness:
  "SyncBlog ((demo_env demo_rows demo_posts Fulfilled None None)
        \<lparr>git_statusMatrix := \<lambda>d. Inl (Thrown ''NotFoundError: public'')\<rparr>) demo_settings =
     \<lparr>calls = [StatusMatrix ''/vault/blog/public''],
      notices = [Notice ''Will push to repository'' None,
                 Notice (''Couldn'' @ [CHR 0x27] @ ''t add updated files. Problem: NotFoundError: public'') (Some 10000)],
      returned = Some (Thrown ''NotFoundError: public'')\<rparr> \<and>
   SyncBlog ((demo_env demo_rows demo_posts Fulfilled None None)
        \<lparr>git_add := \<lambda>dir filepath. Rejected 2 (Thrown ''Error: EACCES'')\<rparr>) demo_settings =
     \<lparr>calls = [StatusMatrix ''/vault/blog/public'',
               Add ''/vault/blog'' ''public/index.html'',
               Remove ''/vault/blog'' ''public/old.html''],
      notices = [Notice ''Will push to repository'' None,
                 Notice (''Couldn'' @ [CHR 0x27] @ ''t add updated files. Problem: Error: EACCES'') (Some 10000)],
      returned = Some (Thrown ''Error: EACCES'')\<rparr> \<and>
   SyncBlog ((demo_env demo_rows demo_posts Fulfilled None None)
        \<lparr>git_statusMatrix := \<lambda>d. if d = ''/vault/blog/public'' then Inr demo_rows
                                 else Inl (Thrown ''NotFoundError: content'')\<rparr>) demo_settings =
     \<lparr>calls = [StatusMatrix ''/vault/blog/public'',
               Add ''/vault/blog'' ''public/index.html'',
               Remove ''/vault/blog'' ''public/old.html'',
               StatusMatrix ''/vault/blog/content''],
      notices = [Notice ''Will push to repository'' None,
                 Notice (''Couldn'' @ [CHR 0x27] @ ''t add updated files. Problem: NotFoundError: content'') (Some 10000)],
      returned = Some (Thrown ''NotFoundError: content'')\<rparr> \<and>
   SyncBlog ((demo_env demo_rows demo_posts Fulfilled None None)
        \<lparr>git_add := \<lambda>dir filepath. if filepath = ''content/post.md''
                                        then Rejected 1 (Thrown ''Error: ENOSPC'') else Fulfilled\<rparr>) demo_settings =
     \<lparr>calls = [StatusMatrix ''/vault/blog/public'',
               Add ''/vault/blog'' ''public/index.html'',
               Remove ''/vault/blog'' ''public/old.html'',
               StatusMatrix ''/vault/blog/content'',
               Add ''/vault/blog'' ''content/post.md''],
      notices = [Notice ''Will push to repository'' None,
                 Notice (''Couldn'' @ [CHR 0x27] @ ''t add updated files. Problem: Error: ENOSPC'') (Some 10000)],
      returned = Some (Thrown ''Error: ENOSPC'')\<rparr> \<and>
   SyncBlog (demo_env demo_rows demo_posts Fulfilled (Some (Thrown ''Error: no ref'')) None) demo_settings =
     \<lparr>calls = [StatusMatrix ''/vault/blog/public'',
               Add ''/vault/blog'' ''public/index.html'',
               Remove ''/vault/blog'' ''public/old.html'',
               StatusMatrix ''/vault/blog/content'',
               Add ''/vault/blog'' ''content/post.md'',
               Commit ''/vault/blog''
                 ''laptop Tue Nov 03 2026 07:18:00 GMT+0000 (Coordinated Universal Time)''
                 ''main'' ''M K'' ''mk@example.org''],
      notices = [Notice ''Will push to repository'' None,
                 Notice (''Couldn'' @ [CHR 0x27] @ ''t commit changes to the branch. Problem: Error: no ref'') (Some 10000)],
      returned = Some (Thrown ''Error: no ref'')\<rparr> \<and>
   SyncBlog (demo_env demo_rows demo_posts Fulfilled None (Some (Thrown ''HttpError: 401''))) demo_settings =
     \<lparr>calls = [StatusMatrix ''/vault/blog/public'',
               Add ''/vault/blog'' ''public/index.html'',
               Remove ''/vault/blog'' ''public/old.html'',
               StatusMatrix ''/vault/blog/content'',
               Add ''/vault/blog'' ''content/post.md'',
               Commit ''/vault/blog''
                 ''laptop Tue Nov 03 2026 07:18:00 GMT+0000 (Coordinated Universal Time)''
                 ''main'' ''M K'' ''mk@example.org'',
               Push ''/vault/blog'' ''https://github.com/mk/blog'' None (Auth ''ghp_s3cret'' None)],
      notices = [Notice ''Will push to repository'' None,
                 Notice (''Couldn'' @ [CHR 0x27] @ ''t push changes to the repository. Problem: HttpError: 401'') (Some 10000)],
      returned = Some (Thrown ''HttpError: 401'')\<rparr>"
proof (intro conjI)
  let ?E = "(demo_env demo_rows demo_posts Fulfilled None None)
    \<lparr>git_statusMatrix := \<lambda>d. Inl (Thrown ''NotFoundError: public'')\<rparr>"
  have r: "root ?E demo_settings = ''/vault/blog''"
    by (simp add: demo_env_def demo_settings_def)
  have pj: "path_join ?E ''/vault/blog'' ''public'' = ''/vault/blog/public''"
    "path_join ?E ''/vault/blog'' ''content'' = ''/vault/blog/content''"
    by (simp_all add: demo_env_def)
  have ip: "issued ?E ''/vault/blog'' ''public'' = []"
    by (simp add: issued_def reported_def demo)
  have ic: "issued ?E ''/vault/blog'' ''content'' = []"
    by (simp add: issued_def reported_def demo)
  have h: "git_statusMatrix ?E (path_join ?E (root ?E demo_settings) ''public'') = Inl (Thrown ''NotFoundError: public'')"
    unfolding r pj ip ic by (auto simp: demo_env_def demo_settings_def demo_rows_def demo_posts_def)
  from SyncBlog_step_failure [of ?E demo_settings "Thrown ''NotFoundError: public''", unfolded Let_def,
      THEN conjunct1, THEN mp, OF h]
  show "SyncBlog ?E demo_settings =
     \<lparr>calls = [StatusMatrix ''/vault/blog/public''],
      notices = [Notice ''Will push to repository'' None,
                 Notice (''Couldn'' @ [CHR 0x27] @ ''t add updated files. Problem: NotFoundError: public'') (Some 10000)],
      returned = Some (Thrown ''NotFoundError: public'')\<rparr>"
    unfolding r pj ip ic by (simp add: demo_env_def demo_settings_def)
next
  let ?E = "(demo_env demo_rows demo_posts Fulfilled None None)
    \<lparr>git_add := \<lambda>dir filepath. Rejected 2 (Thrown ''Error: EACCES'')\<rparr>"
  have r: "root ?E demo_settings = ''/vault/blog''"
    by (simp add: demo_env_def demo_settings_def)
  have pj: "path_join ?E ''/vault/blog'' ''public'' = ''/vault/blog/public''"
    "path_join ?E ''/vault/blog'' ''content'' = ''/vault/blog/content''"
    by (simp_all add: demo_env_def)
  have ip: "issued ?E ''/vault/blog'' ''public'' = [Add ''/vault/blog'' ''public/index.html'', Remove ''/vault/blog'' ''public/old.html'']"
    by (simp add: issued_def reported_def demo)
  have ic: "issued ?E ''/vault/blog'' ''content'' = [Add ''/vault/blog'' ''content/post.md'']"
    by (simp add: issued_def reported_def demo)
  have h: "(\<exists>dir filepath t.
         Add dir filepath \<in> set (issued ?E (root ?E demo_settings) ''public'') \<and> git_add ?E dir filepath = Rejected t (Thrown ''Error: EACCES'') \<or>
         Remove dir filepath \<in> set (issued ?E (root ?E demo_settings) ''public'') \<and> git_remove ?E dir filepath = Rejected t (Thrown ''Error: EACCES'')) \<and>
      (\<forall>dir filepath t e'.
         (Add dir filepath \<in> set (issued ?E (root ?E demo_settings) ''public'') \<longrightarrow> git_add ?E dir filepath = Rejected t e' \<longrightarrow> e' = Thrown ''Error: EACCES'') \<and>
         (Remove dir filepath \<in> set (issued ?E (root ?E demo_settings) ''public'') \<longrightarrow> git_remove ?E dir filepath = Rejected t e' \<longrightarrow> e' = Thrown ''Error: EACCES''))"
    unfolding r pj ip ic by (auto simp: demo_env_def demo_settings_def demo_rows_def demo_posts_def)
  from SyncBlog_step_failure [of ?E demo_settings "Thrown ''Error: EACCES''", unfolded Let_def,
      THEN conjunct2, THEN conjunct1, THEN mp, OF h]
  show "SyncBlog ?E demo_settings =
     \<lparr>calls = [StatusMatrix ''/vault/blog/public'',
               Add ''/vault/blog'' ''public/index.html'',
               Remove ''/vault/blog'' ''public/old.html''],
      notices = [Notice ''Will push to repository'' None,
                 Notice (''Couldn'' @ [CHR 0x27] @ ''t add updated files. Problem: Error: EACCES'') (Some 10000)],
      returned = Some (Thrown ''Error: EACCES'')\<rparr>"
    unfolding r pj ip ic by (simp add: demo_env_def demo_settings_def)
next
  let ?E = "(demo_env demo_rows demo_posts Fulfilled None None)
    \<lparr>git_statusMatrix := \<lambda>d. if d = ''/vault/blog/public'' then Inr demo_rows
                             else Inl (Thrown ''NotFoundError: content'')\<rparr>"
  have r: "root ?E demo_settings = ''/vault/blog''"
    by (simp add: demo_env_def demo_settings_def)
  have pj: "path_join ?E ''/vault/blog'' ''public'' = ''/vault/blog/public''"
    "path_join ?E ''/vault/blog'' ''content'' = ''/vault/blog/content''"
    by (simp_all add: demo_env_def)
  have ip: "issued ?E ''/vault/blog'' ''public'' = [Add ''/vault/blog'' ''public/index.html'', Remove ''/vault/blog'' ''public/old.html'']"
    by (simp add: issued_def reported_def demo)
  have ic: "issued ?E ''/vault/blog'' ''content'' = []"
    by (simp add: issued_def reported_def demo)
  have h: "(\<exists>rows. git_statusMatrix ?E (path_join ?E (root ?E demo_settings) ''public'') = Inr rows) \<and>
      ((\<forall>dir filepath. Add dir filepath \<in> set (issued ?E (root ?E demo_settings) ''public'') \<longrightarrow> git_add ?E dir filepath = Fulfilled) \<and>
      (\<forall>dir filepath. Remove dir filepath \<in> set (issued ?E (root ?E demo_settings) ''public'') \<longrightarrow> git_remove ?E dir filepath = Fulfilled)) \<and>
      git_statusMatrix ?E (path_join ?E (root ?E demo_settings) ''content'') = Inl (Thrown ''NotFoundError: content'')"
    unfolding r pj ip ic by (auto simp: demo_env_def demo_settings_def demo_rows_def demo_posts_def)
  from SyncBlog_step_failure [of ?E demo_settings "Thrown ''NotFoundError: content''", unfolded Let_def,
      THEN conjunct2, THEN conjunct2, THEN conjunct1, THEN mp, OF h]
  show "SyncBlog ?E demo_settings =
     \<lparr>calls = [StatusMatrix ''/vault/blog/public'',
               Add ''/vault/blog'' ''public/index.html'',
               Remove ''/vault/blog'' ''public/old.html'',
               StatusMatrix ''/vault/blog/content''],
      notices = [Notice ''Will push to repository'' None,
                 Notice (''Couldn'' @ [CHR 0x27] @ ''t add updated files. Problem: NotFoundError: content'') (Some 10000)],
      returned = Some (Thrown ''NotFoundError: content'')\<rparr>"
    unfolding r pj ip ic by (simp add: demo_env_def demo_settings_def)
next
  let ?E = "(demo_env demo_rows demo_posts Fulfilled None None)
    \<lparr>git_add := \<lambda>dir filepath. if filepath = ''content/post.md''
                                    then Rejected 1 (Thrown ''Error: ENOSPC'') else Fulfilled\<rparr>"
  have r: "root ?E demo_settings = ''/vault/blog''"
    by (simp add: demo_env_def demo_settings_def)
  have pj: "path_join ?E ''/vault/blog'' ''public'' = ''/vault/blog/public''"
    "path_join ?E ''/vault/blog'' ''content'' = ''/vault/blog/content''"
    by (simp_all add: demo_env_def)
  have ip: "issued ?E ''/vault/blog'' ''public'' = [Add ''/vault/blog'' ''public/index.html'', Remove ''/vault/blog'' ''public/old.html'']"
    by (simp add: issued_def reported_def demo)
  have ic: "issued ?E ''/vault/blog'' ''content'' = [Add ''/vault/blog'' ''content/post.md'']"
    by (simp add: issued_def reported_def demo)
  have h: "(\<exists>rows. git_statusMatrix ?E (path_join ?E (root ?E demo_settings) ''public'') = Inr rows) \<and>
      ((\<forall>dir filepath. Add dir filepath \<in> set (issued ?E (root ?E demo_settings) ''public'') \<longrightarrow> git_add ?E dir filepath = Fulfilled) \<and>
      (\<forall>dir filepath. Remove dir filepath \<in> set (issued ?E (root ?E demo_settings) ''public'') \<longrightarrow> git_remove ?E dir filepath = Fulfilled)) \<and>
      ((\<exists>dir filepath t.
         Add dir filepath \<in> set (issued ?E (root ?E demo_settings) ''content'') \<and> git_add ?E dir filepath = Rejected t (Thrown ''Error: ENOSPC'') \<or>
         Remove dir filepath \<in> set (issued ?E (root ?E demo_settings) ''content'') \<and> git_remove ?E dir filepath = Rejected t (Thrown ''Error: ENOSPC'')) \<and>
      (\<forall>dir filepath t e'.
         (Add dir filepath \<in> set (issued ?E (root ?E demo_settings) ''content'') \<longrightarrow> git_add ?E dir filepath = Rejected t e' \<longrightarrow> e' = Thrown ''Error: ENOSPC'') \<and>
         (Remove dir filepath \<in> set (issued ?E (root ?E demo_settings) ''content'') \<longrightarrow> git_remove ?E dir filepath = Rejected t e' \<longrightarrow> e' = Thrown ''Error: ENOSPC'')))"
    unfolding r pj ip ic by (auto simp: demo_env_def demo_settings_def demo_rows_def demo_posts_def)
  from SyncBlog_step_failure [of ?E demo_settings "Thrown ''Error: ENOSPC''", unfolded Let_def,
      THEN conjunct2, THEN conjunct2, THEN conjunct2, THEN conjunct1, THEN mp, OF h]
  show "SyncBlog ?E demo_settings =
     \<lparr>calls = [StatusMatrix ''/vault/blog/public'',
               Add ''/vault/blog'' ''public/index.html'',
               Remove ''/vault/blog'' ''public/old.html'',
               StatusMatrix ''/vault/blog/content'',
               Add ''/vault/blog'' ''content/post.md''],
      notices = [Notice ''Will push to repository'' None,
                 Notice (''Couldn'' @ [CHR 0x27] @ ''t add updated files. Problem: Error: ENOSPC'') (Some 10000)],
      returned = Some (Thrown ''Error: ENOSPC'')\<rparr>"
    unfolding r pj ip ic by (simp add: demo_env_def demo_settings_def)
next
  let ?E = "demo_env demo_rows demo_posts Fulfilled (Some (Thrown ''Error: no ref'')) None"
  have r: "root ?E demo_settings = ''/vault/blog''"
    by (simp add: demo_env_def demo_settings_def)
  have pj: "path_join ?E ''/vault/blog'' ''public'' = ''/vault/blog/public''"
    "path_join ?E ''/vault/blog'' ''content'' = ''/vault/blog/content''"
    by (simp_all add: demo_env_def)
  have ip: "issued ?E ''/vault/blog'' ''public'' = [Add ''/vault/blog'' ''public/index.html'', Remove ''/vault/blog'' ''public/old.html'']"
    by (simp add: issued_def reported_def demo)
  have ic: "issued ?E ''/vault/blog'' ''content'' = [Add ''/vault/blog'' ''content/post.md'']"
    by (simp add: issued_def reported_def demo)
  have h: "((\<exists>rows. git_statusMatrix ?E (path_join ?E (root ?E demo_settings) ''public'') = Inr rows) \<and>
      ((\<forall>dir filepath. Add dir filepath \<in> set (issued ?E (root ?E demo_settings) ''public'') \<longrightarrow> git_add ?E dir filepath = Fulfilled) \<and>
      (\<forall>dir filepath. Remove dir filepath \<in> set (issued ?E (root ?E demo_settings) ''public'') \<longrightarrow> git_remove ?E dir filepath = Fulfilled)) \<and>
      (\<exists>rows. git_statusMatrix ?E (path_join ?E (root ?E demo_settings) ''content'') = Inr rows) \<and>
      ((\<forall>dir filepath. Add dir filepath \<in> set (issued ?E (root ?E demo_settings) ''content'') \<longrightarrow> git_add ?E dir filepath = Fulfilled) \<and>
      (\<forall>dir filepath. Remove dir filepath \<in> set (issued ?E (root ?E demo_settings) ''content'') \<longrightarrow> git_remove ?E dir filepath = Fulfilled))) \<and>
      git_commit ?E (root ?E demo_settings) (os_hostname ?E @ '' '' @ new_Date ?E) ''main''
        (nameOfCommit demo_settings) (emailOfCommit demo_settings) = Some (Thrown ''Error: no ref'')"
    unfolding r pj ip ic by (auto simp: demo_env_def demo_settings_def demo_rows_def demo_posts_def)
  from SyncBlog_step_failure [of ?E demo_settings "Thrown ''Error: no ref''", unfolded Let_def,
      THEN conjunct2, THEN conjunct2, THEN conjunct2, THEN conjunct2, THEN conjunct1, THEN mp, OF h]
  show "SyncBlog ?E demo_settings =
     \<lparr>calls = [StatusMatrix ''/vault/blog/public'',
               Add ''/vault/blog'' ''public/index.html'',
               Remove ''/vault/blog'' ''public/old.html'',
               StatusMatrix ''/vault/blog/content'',
               Add ''/vault/blog'' ''content/post.md'',
               Commit ''/vault/blog''
                 ''laptop Tue Nov 03 2026 07:18:00 GMT+0000 (Coordinated Universal Time)''
                 ''main'' ''M K'' ''mk@example.org''],
      notices = [Notice ''Will push to repository'' None,
                 Notice (''Couldn'' @ [CHR 0x27] @ ''t commit changes to the branch. Problem: Error: no ref'') (Some 10000)],
      returned = Some (Thrown ''Error: no ref'')\<rparr>"
    unfolding r pj ip ic by (simp add: demo_env_def demo_settings_def)
next
  let ?E = "demo_env demo_rows demo_posts Fulfilled None (Some (Thrown ''HttpError: 401''))"
  have r: "root ?E demo_settings = ''/vault/blog''"
    by (simp add: demo_env_def demo_settings_def)
  have pj: "path_join ?E ''/vault/blog'' ''public'' = ''/vault/blog/public''"
    "path_join ?E ''/vault/blog'' ''content'' = ''/vault/blog/content''"
    by (simp_all add: demo_env_def)
  have ip: "issued ?E ''/vault/blog'' ''public'' = [Add ''/vault/blog'' ''public/index.html'', Remove ''/vault/blog'' ''public/old.html'']"
    by (simp add: issued_def reported_def demo)
  have ic: "issued ?E ''/vault/blog'' ''content'' = [Add ''/vault/blog'' ''content/post.md'']"
    by (simp add: issued_def reported_def demo)
  have h: "((\<exists>rows. git_statusMatrix ?E (path_join ?E (root ?E demo_settings) ''public'') = Inr rows) \<and>
      ((\<forall>dir filepath. Add dir filepath \<in> set (issued ?E (root ?E demo_settings) ''public'') \<longrightarrow> git_add ?E dir filepath = Fulfilled) \<and>
      (\<forall>dir filepath. Remove dir filepath \<in> set (issued ?E (root ?E demo_settings) ''public'') \<longrightarrow> git_remove ?E dir filepath = Fulfilled)) \<and>
      (\<exists>rows. git_statusMatrix ?E (path_join ?E (root ?E demo_settings) ''content'') = Inr rows) \<and>
      ((\<forall>dir filepath. Add dir filepath \<in> set (issued ?E (root ?E demo_settings) ''content'') \<longrightarrow> git_add ?E dir filepath = Fulfilled) \<and>
      (\<forall>dir filepath. Remove dir filepath \<in> set (issued ?E (root ?E demo_settings) ''content'') \<longrightarrow> git_remove ?E dir filepath = Fulfilled))) \<and>
      git_commit ?E (root ?E demo_settings) (os_hostname ?E @ '' '' @ new_Date ?E) ''main''
        (nameOfCommit demo_settings) (emailOfCommit demo_settings) = None \<and>
      git_push ?E (root ?E demo_settings) (''https://'' @ githubRepoUrl demo_settings) None
        (Auth (githubPersonalAccessToken demo_settings) None) = Some (Thrown ''HttpError: 401'')"
    unfolding r pj ip ic by (auto simp: demo_env_def demo_settings_def demo_rows_def demo_posts_def)
  from SyncBlog_step_failure [of ?E demo_settings "Thrown ''HttpError: 401''", unfolded Let_def,
      THEN conjunct2, THEN conjunct2, THEN conjunct2, THEN conjunct2, THEN conjunct2, THEN mp, OF h]
  show "SyncBlog ?E demo_settings =
     \<lparr>calls = [StatusMatrix ''/vault/blog/public'',
               Add ''/vault/blog'' ''public/index.html'',
               Remove ''/vault/blog'' ''public/old.html'',
               StatusMatrix ''/vault/blog/content'',
               Add ''/vault/blog'' ''content/post.md'',
               Commit ''/vault/blog''
                 ''laptop Tue Nov 03 2026 07:18:00 GMT+0000 (Coordinated Universal Time)''
                 ''main'' ''M K'' ''mk@example.org'',
               Push ''/vault/blog'' ''https://github.com/mk/blog'' None (Auth ''ghp_s3cret'' None)],
      notices = [Notice ''Will push to repository'' None,
                 Notice (''Couldn'' @ [CHR 0x27] @ ''t push changes to the repository. Problem: HttpError: 401'') (Some 10000)],
      returned = Some (Thrown ''HttpError: 401'')\<rparr>"
    unfolding r pj ip ic by (simp add: demo_env_def demo_settings_def)
qed

text \<open>
  C5. When the library rejects an \<open>add\<close> or a \<open>remove\<close> that the invocation issued,
  the invocation returns an error that the library rejected one of the issued per-path calls
  with, its notice is that of the staging failure with the description of that error, and it
  issues neither a commit nor a push.
\<close>

theorem SyncBlog_per_path_failure:
  assumes "c \<in> set (calls (SyncBlog E S))"
    and "(\<exists>dir filepath. c = Add dir filepath \<and> git_add E dir filepath = Rejected t e) \<or>
         (\<exists>dir filepath. c = Remove dir filepath \<and> git_remove E dir filepath = Rejected t e)"
  shows "\<exists>e'. returned (SyncBlog E S) = Some e' \<and>
           notices (SyncBlog E S) =
             [Notice ''Will push to repository'' None,
              Notice (''Couldn'' @ [CHR 0x27] @ ''t add updated files. Problem: '' @ to_string e')
                (Some 10000)] \<and>
           (\<exists>dir filepath t'.
              Add dir filepath \<in> set (calls (SyncBlog E S)) \<and>
                git_add E dir filepath = Rejected t' e' \<or>
              Remove dir filepath \<in> set (calls (SyncBlog E S)) \<and>
                git_remove E dir filepath = Rejected t' e') \<and>
           (\<forall>c'\<in>set (calls (SyncBlog E S)). \<not> is_Commit c' \<and> \<not> is_Push c')"
proof -
  from assms(2) have pp: "per_path c" and rj: "settle E c = Rejected t e"
    by (auto simp: per_path_def)
  from per_path_rejected_stage_fails [OF assms(1) pp rj]
  obtain e' c' t' where e': "snd (stage_step E (root E S)) = Some e'"
    and c': "c' \<in> set (fst (stage_step E (root E S)))" and r': "settle E c' = Rejected t' e'"
    by blast
  have eq: "SyncBlog E S =
    \<lparr>calls = fst (stage_step E (root E S)),
     notices = [Notice ''Will push to repository'' None, Notice (msg_stage @ to_string e') (Some 10000)],
     returned = Some e'\<rparr>"
    by (rule SyncBlog_stage_failed [OF e'])
  from r' c' have "\<exists>dir filepath t'.
      Add dir filepath \<in> set (fst (stage_step E (root E S))) \<and> git_add E dir filepath = Rejected t' e' \<or>
      Remove dir filepath \<in> set (fst (stage_step E (root E S))) \<and> git_remove E dir filepath = Rejected t' e'"
    unfolding settle_Rejected_iff by blast
  then show ?thesis
    by (intro exI [of _ e']) (simp add: eq stage_calls_not_later msg_stage_text)
qed

theorem SyncBlog_per_path_failure_witness:
  "Add ''/vault/blog'' ''public/index.html'' \<in>
     set (calls (SyncBlog ((demo_env demo_rows demo_posts Fulfilled None None)
            \<lparr>git_add := \<lambda>dir filepath. Rejected 2 (Thrown ''Error: EACCES'')\<rparr>) demo_settings)) \<and>
   git_add ((demo_env demo_rows demo_posts Fulfilled None None)
            \<lparr>git_add := \<lambda>dir filepath. Rejected 2 (Thrown ''Error: EACCES'')\<rparr>)
     ''/vault/blog'' ''public/index.html'' = Rejected 2 (Thrown ''Error: EACCES'') \<and>
   returned (SyncBlog ((demo_env demo_rows demo_posts Fulfilled None None)
            \<lparr>git_add := \<lambda>dir filepath. Rejected 2 (Thrown ''Error: EACCES'')\<rparr>) demo_settings) =
     Some (Thrown ''Error: EACCES'') \<and>
   notices (SyncBlog ((demo_env demo_rows demo_posts Fulfilled None None)
            \<lparr>git_add := \<lambda>dir filepath. Rejected 2 (Thrown ''Error: EACCES'')\<rparr>) demo_settings) =
     [Notice ''Will push to repository'' None,
      Notice (''Couldn'' @ [CHR 0x27] @ ''t add updated files. Problem: Error: EACCES'') (Some 10000)] \<and>
   Remove ''/vault/blog'' ''public/old.html'' \<in>
     set (calls (SyncBlog (demo_env demo_rows demo_posts (Rejected 3 (Thrown ''Error: locked'')) None None)
            demo_settings)) \<and>
   git_remove (demo_env demo_rows demo_posts (Rejected 3 (Thrown ''Error: locked'')) None None)
     ''/vault/blog'' ''public/old.html'' = Rejected 3 (Thrown ''Error: locked'') \<and>
   returned (SyncBlog (demo_env demo_rows demo_posts (Rejected 3 (Thrown ''Error: locked'')) None None)
            demo_settings) = Some (Thrown ''Error: locked'') \<and>
   notices (SyncBlog (demo_env demo_rows demo_posts (Rejected 3 (Thrown ''Error: locked'')) None None)
            demo_settings) =
     [Notice ''Will push to repository'' None,
      Notice (''Couldn'' @ [CHR 0x27] @ ''t add updated files. Problem: Error: locked'') (Some 10000)]"
proof -
  let ?A = "(demo_env demo_rows demo_posts Fulfilled None None)
            \<lparr>git_add := \<lambda>dir filepath. Rejected 2 (Thrown ''Error: EACCES'')\<rparr>"
  let ?R = "demo_env demo_rows demo_posts (Rejected 3 (Thrown ''Error: locked'')) None None"
  have a1: "Add ''/vault/blog'' ''public/index.html'' \<in> set (calls (SyncBlog ?A demo_settings))"
    by (simp add: SyncBlog_def demo)
  have a2: "git_add ?A ''/vault/blog'' ''public/index.html'' = Rejected 2 (Thrown ''Error: EACCES'')"
    by (simp add: demo_env_def)
  from SyncBlog_per_path_failure [of "Add ''/vault/blog'' ''public/index.html''" ?A demo_settings
      2 "Thrown ''Error: EACCES''", OF a1] a2
  obtain e' where ra: "returned (SyncBlog ?A demo_settings) = Some e'"
    and na: "notices (SyncBlog ?A demo_settings) =
      [Notice ''Will push to repository'' None,
       Notice (''Couldn'' @ [CHR 0x27] @ ''t add updated files. Problem: '' @ to_string e') (Some 10000)]"
    and oa: "\<exists>dir filepath t'.
      Add dir filepath \<in> set (calls (SyncBlog ?A demo_settings)) \<and>
        git_add ?A dir filepath = Rejected t' e' \<or>
      Remove dir filepath \<in> set (calls (SyncBlog ?A demo_settings)) \<and>
        git_remove ?A dir filepath = Rejected t' e'"
    by blast
  from oa have ea: "e' = Thrown ''Error: EACCES''"
    by (auto simp: demo_env_def)
  have r1: "Remove ''/vault/blog'' ''public/old.html'' \<in> set (calls (SyncBlog ?R demo_settings))"
    by (simp add: SyncBlog_def demo)
  have r2: "git_remove ?R ''/vault/blog'' ''public/old.html'' = Rejected 3 (Thrown ''Error: locked'')"
    by (simp add: demo_env_def)
  from SyncBlog_per_path_failure [of "Remove ''/vault/blog'' ''public/old.html''" ?R demo_settings
      3 "Thrown ''Error: locked''", OF r1] r2
  obtain e'' where rr: "returned (SyncBlog ?R demo_settings) = Some e''"
    and nr: "notices (SyncBlog ?R demo_settings) =
      [Notice ''Will push to repository'' None,
       Notice (''Couldn'' @ [CHR 0x27] @ ''t add updated files. Problem: '' @ to_string e'') (Some 10000)]"
    and or: "\<exists>dir filepath t'.
      Add dir filepath \<in> set (calls (SyncBlog ?R demo_settings)) \<and>
        git_add ?R dir filepath = Rejected t' e'' \<or>
      Remove dir filepath \<in> set (calls (SyncBlog ?R demo_settings)) \<and>
        git_remove ?R dir filepath = Rejected t' e''"
    by blast
  from or have er: "e'' = Thrown ''Error: locked''"
    by (auto simp: demo_env_def)
  from a1 a2 ra na r1 r2 rr nr show ?thesis
    unfolding ea er by simp
qed

text \<open>
  C6, as stated, fails. The status computation lists unmodified files too, and the callback
  looks at the worktree status only: on a tree whose rows are all unmodified the staging step
  issues an \<open>add\<close> for each of them. Nothing in the code looks for changes before the
  commit either: where the library's commit accepts the unchanged tree, the run commits,
  pushes and returns nothing.
\<close>

theorem SyncBlog_unmodified_counterexample:
  "git_statusMatrix (demo_env [(''index.html'', 1, 1, 1)] [(''post.md'', 1, 1, 1)] Fulfilled None None)
     ''/vault/blog/public'' = Inr [(''index.html'', 1, 1, 1)] \<and>
   unmodified (''index.html'', 1, 1, 1) \<and>
   git_statusMatrix (demo_env [(''index.html'', 1, 1, 1)] [(''post.md'', 1, 1, 1)] Fulfilled None None)
     ''/vault/blog/content'' = Inr [(''post.md'', 1, 1, 1)] \<and>
   unmodified (''post.md'', 1, 1, 1) \<and>
   SyncBlog (demo_env [(''index.html'', 1, 1, 1)] [(''post.md'', 1, 1, 1)] Fulfilled None None)
     demo_settings =
     \<lparr>calls = [StatusMatrix ''/vault/blog/public'', Add ''/vault/blog'' ''public/index.html'',
               StatusMatrix ''/vault/blog/content'', Add ''/vault/blog'' ''content/post.md'',
               Commit ''/vault/blog''
                 ''laptop Tue Nov 03 2026 07:18:00 GMT+0000 (Coordinated Universal Time)''
                 ''main'' ''M K'' ''mk@example.org'',
               Push ''/vault/blog'' ''https://github.com/mk/blog'' None (Auth ''ghp_s3cret'' None)],
      notices = [Notice ''Will push to repository'' None,
                 Notice ''GitHub Blog Sync: Pushed to github.com/mk/blog'' None],
      returned = None\<rparr>"
  by (simp add: SyncBlog_def demo)

text \<open>
  C6, amended. When every row the two status computations report is unmodified, the
  invocation issues no \<open>remove\<close>, and its \<open>add\<close> calls are one for each reported path
  that does not contain \<open>.DS_Store\<close>, those of \<open>public\<close> alone or those of both
  subdirectories. When the library fulfils these, all of them are issued and the commit is
  attempted; when the commit then fails with \<open>e\<close>, the run ends there with the notice of
  the commit failure and \<open>e\<close> returned.
\<close>

theorem SyncBlog_unmodified_tree:
  assumes "git_statusMatrix E (path_join E (root E S) ''public'') = Inr rows1"
    and "\<forall>row\<in>set rows1. unmodified row"
    and "git_statusMatrix E (path_join E (root E S) ''content'') = Inr rows2"
    and "\<forall>row\<in>set rows2. unmodified row"
  shows "let R = root E S;
             PD = path_join E R ''public'';
             CD = path_join E R ''content'';
             A1 = map (\<lambda>row. Add R (path_join E ''public'' (fst row)))
                    (filter (\<lambda>row. \<not> includes_str (fst row) ''.DS_Store'') rows1);
             A2 = map (\<lambda>row. Add R (path_join E ''content'' (fst row)))
                    (filter (\<lambda>row. \<not> includes_str (fst row) ''.DS_Store'') rows2);
             message = os_hostname E @ '' '' @ new_Date E;
             commit = Commit R message ''main'' (nameOfCommit S) (emailOfCommit S)
         in filter is_Remove (calls (SyncBlog E S)) = [] \<and>
            (filter is_Add (calls (SyncBlog E S)) = A1 \<or>
             filter is_Add (calls (SyncBlog E S)) = A1 @ A2) \<and>
            ((\<forall>dir filepath. Add dir filepath \<in> set (A1 @ A2) \<longrightarrow>
                git_add E dir filepath = Fulfilled) \<longrightarrow>
               filter is_Add (calls (SyncBlog E S)) = A1 @ A2 \<and>
               commit \<in> set (calls (SyncBlog E S)) \<and>
               (\<forall>e. git_commit E R message ''main'' (nameOfCommit S) (emailOfCommit S) = Some e \<longrightarrow>
                  SyncBlog E S =
                    \<lparr>calls = StatusMatrix PD # A1 @ StatusMatrix CD # A2 @ [commit],
                     notices = [Notice ''Will push to repository'' None,
                                Notice (''Couldn'' @ [CHR 0x27] @
                                        ''t commit changes to the branch. Problem: '' @ to_string e)
                                  (Some 10000)],
                     returned = Some e\<rparr>))"
proof -
  let ?A1 = "map (\<lambda>row. Add (root E S) (path_join E ''public'' (fst row)))
      (filter (\<lambda>row. \<not> includes_str (fst row) ''.DS_Store'') rows1)"
  let ?A2 = "map (\<lambda>row. Add (root E S) (path_join E ''content'' (fst row)))
      (filter (\<lambda>row. \<not> includes_str (fst row) ''.DS_Store'') rows2)"
  let ?c = "Commit (root E S) (os_hostname E @ '' '' @ new_Date E) ''main''
      (nameOfCommit S) (emailOfCommit S)"
  have p: "issued E (root E S) ''public'' = ?A1"
    using assms(1,2) by (simp add: issued_def reported_def staged_unmodified)
  have c: "issued E (root E S) ''content'' = ?A2"
    using assms(3,4) by (simp add: issued_def reported_def staged_unmodified)
  have cs: "calls (SyncBlog E S) =
      (StatusMatrix (path_join E (root E S) ''public'') # ?A1) @
      (if snd (stage_subdir E (root E S) ''public'') = None
       then StatusMatrix (path_join E (root E S) ''content'') # ?A2 else []) @ later_calls E S"
    by (simp add: calls_SyncBlog fst_stage_step fst_stage_subdir p c)
  have rm: "filter is_Remove (calls (SyncBlog E S)) = []"
    unfolding cs by (simp add: filter_map_Add filter_later_calls)
  have ad: "filter is_Add (calls (SyncBlog E S)) =
      ?A1 @ (if snd (stage_subdir E (root E S) ''public'') = None then ?A2 else [])"
    unfolding cs by (simp add: filter_map_Add filter_later_calls)
  have ful: "filter is_Add (calls (SyncBlog E S)) = ?A1 @ ?A2 \<and>
      ?c \<in> set (calls (SyncBlog E S)) \<and>
      (\<forall>e. git_commit E (root E S) (os_hostname E @ '' '' @ new_Date E) ''main''
              (nameOfCommit S) (emailOfCommit S) = Some e \<longrightarrow>
         SyncBlog E S =
           \<lparr>calls = StatusMatrix (path_join E (root E S) ''public'') # ?A1 @
              StatusMatrix (path_join E (root E S) ''content'') # ?A2 @ [?c],
            notices = [Notice ''Will push to repository'' None,
                       Notice (''Couldn'' @ [CHR 0x27] @
                               ''t commit changes to the branch. Problem: '' @ to_string e)
                         (Some 10000)],
            returned = Some e\<rparr>)"
    if f: "\<forall>dir filepath. Add dir filepath \<in> set (?A1 @ ?A2) \<longrightarrow> git_add E dir filepath = Fulfilled"
  proof -
    have f1: "fulfilled E (issued E (root E S) ''public'')"
      unfolding p fulfilled_def using f by auto
    have f2: "fulfilled E (issued E (root E S) ''content'')"
      unfolding c fulfilled_def using f by auto
    from stage_step_fulfilled [OF assms(1) f1 assms(3) f2]
    have st: "stage_step E (root E S) =
      (StatusMatrix (path_join E (root E S) ''public'') # ?A1 @
         StatusMatrix (path_join E (root E S) ''content'') # ?A2, None)"
      by (simp add: p c)
    then have sn: "snd (stage_step E (root E S)) = None" by simp
    from stage_subdir_fulfilled [OF assms(1) f1]
    have "snd (stage_subdir E (root E S) ''public'') = None" by simp
    with ad have a: "filter is_Add (calls (SyncBlog E S)) = ?A1 @ ?A2" by simp
    have m: "?c \<in> set (calls (SyncBlog E S))"
      by (simp add: calls_SyncBlog later_calls_def sn Let_def split: option.splits)
    have "SyncBlog E S =
           \<lparr>calls = StatusMatrix (path_join E (root E S) ''public'') # ?A1 @
              StatusMatrix (path_join E (root E S) ''content'') # ?A2 @ [?c],
            notices = [Notice ''Will push to repository'' None,
                       Notice (''Couldn'' @ [CHR 0x27] @
                               ''t commit changes to the branch. Problem: '' @ to_string e)
                         (Some 10000)],
            returned = Some e\<rparr>"
      if "git_commit E (root E S) (os_hostname E @ '' '' @ new_Date E) ''main''
              (nameOfCommit S) (emailOfCommit S) = Some e" for e
      using SyncBlog_commit_failed [OF sn that] by (simp add: st msg_commit_text)
    with a m show ?thesis by blast
  qed
  have alt: "filter is_Add (calls (SyncBlog E S)) = ?A1 \<or>
      filter is_Add (calls (SyncBlog E S)) = ?A1 @ ?A2"
    unfolding ad by simp
  from rm alt ful show ?thesis
    unfolding Let_def by blast
qed

theorem SyncBlog_unmodified_tree_witness:
  "git_statusMatrix (demo_env [(''index.html'', 1, 1, 1), (''.DS_Store'', 1, 1, 1)] [(''post.md'', 1, 1, 1)]
      Fulfilled (Some (Thrown ''Error: nothing to commit'')) None) ''/vault/blog/public'' =
     Inr [(''index.html'', 1, 1, 1), (''.DS_Store'', 1, 1, 1)] \<and>
   unmodified (''index.html'', 1, 1, 1) \<and>
   unmodified (''.DS_Store'', 1, 1, 1) \<and>
   git_statusMatrix (demo_env [(''index.html'', 1, 1, 1), (''.DS_Store'', 1, 1, 1)] [(''post.md'', 1, 1, 1)]
      Fulfilled (Some (Thrown ''Error: nothing to commit'')) None) ''/vault/blog/content'' = Inr [(''post.md'', 1, 1, 1)] \<and>
   unmodified (''post.md'', 1, 1, 1) \<and>
   git_add (demo_env [(''index.html'', 1, 1, 1), (''.DS_Store'', 1, 1, 1)] [(''post.md'', 1, 1, 1)]
      Fulfilled (Some (Thrown ''Error: nothing to commit'')) None) ''/vault/blog'' ''public/index.html'' = Fulfilled \<and>
   git_add (demo_env [(''index.html'', 1, 1, 1), (''.DS_Store'', 1, 1, 1)] [(''post.md'', 1, 1, 1)]
      Fulfilled (Some (Thrown ''Error: nothing to commit'')) None) ''/vault/blog'' ''content/post.md'' = Fulfilled \<and>
   git_commit (demo_env [(''index.html'', 1, 1, 1), (''.DS_Store'', 1, 1, 1)] [(''post.md'', 1, 1, 1)]
      Fulfilled (Some (Thrown ''Error: nothing to commit'')) None) ''/vault/blog''
     ''laptop Tue Nov 03 2026 07:18:00 GMT+0000 (Coordinated Universal Time)''
     ''main'' ''M K'' ''mk@example.org'' = Some (Thrown ''Error: nothing to commit'') \<and>
   filter is_Remove (calls (SyncBlog (demo_env [(''index.html'', 1, 1, 1), (''.DS_Store'', 1, 1, 1)] [(''post.md'', 1, 1, 1)]
      Fulfilled (Some (Thrown ''Error: nothing to commit'')) None) demo_settings)) = [] \<and>
   filter is_Add (calls (SyncBlog (demo_env [(''index.html'', 1, 1, 1), (''.DS_Store'', 1, 1, 1)] [(''post.md'', 1, 1, 1)]
      Fulfilled (Some (Thrown ''Error: nothing to commit'')) None) demo_settings)) =
     [Add ''/vault/blog'' ''public/index.html'', Add ''/vault/blog'' ''content/post.md''] \<and>
   SyncBlog (demo_env [(''index.html'', 1, 1, 1), (''.DS_Store'', 1, 1, 1)] [(''post.md'', 1, 1, 1)]
      Fulfilled (Some (Thrown ''Error: nothing to commit'')) None) demo_settings =
     \<lparr>calls = [StatusMatrix ''/vault/blog/public'', Add ''/vault/blog'' ''public/index.html'',
               StatusMatrix ''/vault/blog/content'', Add ''/vault/blog'' ''content/post.md'',
               Commit ''/vault/blog''
                 ''laptop Tue Nov 03 2026 07:18:00 GMT+0000 (Coordinated Universal Time)''
                 ''main'' ''M K'' ''mk@example.org''],
      notices = [Notice ''Will push to repository'' None,
                 Notice (''Couldn'' @ [CHR 0x27] @
                         ''t commit changes to the branch. Problem: Error: nothing to commit'')
                   (Some 10000)],
      returned = Some (Thrown ''Error: nothing to commit'')\<rparr>"
proof -
  let ?E = "demo_env [(''index.html'', 1, 1, 1), (''.DS_Store'', 1, 1, 1)] [(''post.md'', 1, 1, 1)]
      Fulfilled (Some (Thrown ''Error: nothing to commit'')) None"
  have r: "root ?E demo_settings = ''/vault/blog''"
    by (simp add: demo_env_def demo_settings_def)
  have pj: "path_join ?E ''/vault/blog'' ''public'' = ''/vault/blog/public''"
    "path_join ?E ''/vault/blog'' ''content'' = ''/vault/blog/content''"
    by (simp_all add: demo_env_def)
  have h1: "git_statusMatrix ?E (path_join ?E (root ?E demo_settings) ''public'') =
      Inr [(''index.html'', 1, 1, 1), (''.DS_Store'', 1, 1, 1)]"
    by (simp add: demo_env_def demo_settings_def)
  have h2: "\<forall>row\<in>set [(''index.html'', 1::nat, 1::nat, 1::nat), (''.DS_Store'', 1, 1, 1)]. unmodified row"
    by simp
  have h3: "git_statusMatrix ?E (path_join ?E (root ?E demo_settings) ''content'') =
      Inr [(''post.md'', 1, 1, 1)]"
    by (simp add: demo_env_def demo_settings_def)
  have h4: "\<forall>row\<in>set [(''post.md'', 1::nat, 1::nat, 1::nat)]. unmodified row"
    by simp
  have a1: "map (\<lambda>row. Add ''/vault/blog'' (path_join ?E ''public'' (fst row)))
      (filter (\<lambda>row. \<not> includes_str (fst row) ''.DS_Store'')
         [(''index.html'', 1::nat, 1::nat, 1::nat), (''.DS_Store'', 1, 1, 1)]) =
      [Add ''/vault/blog'' ''public/index.html'']"
    by (simp add: demo_env_def)
  have a2: "map (\<lambda>row. Add ''/vault/blog'' (path_join ?E ''content'' (fst row)))
      (filter (\<lambda>row. \<not> includes_str (fst row) ''.DS_Store'')
         [(''post.md'', 1::nat, 1::nat, 1::nat)]) =
      [Add ''/vault/blog'' ''content/post.md'']"
    by (simp add: demo_env_def)
  note T = SyncBlog_unmodified_tree [OF h1 h2 h3 h4, unfolded Let_def r pj a1 a2]
  have f: "\<forall>dir filepath.
      Add dir filepath \<in> set ([Add ''/vault/blog'' ''public/index.html''] @
                               [Add ''/vault/blog'' ''content/post.md'']) \<longrightarrow>
      git_add ?E dir filepath = Fulfilled"
    by (simp add: demo_env_def)
  have hc: "git_commit ?E ''/vault/blog'' (os_hostname ?E @ '' '' @ new_Date ?E) ''main''
      (nameOfCommit demo_settings) (emailOfCommit demo_settings) =
      Some (Thrown ''Error: nothing to commit'')"
    by (simp add: demo_env_def)
  note rm = T [THEN conjunct1]
  note U = T [THEN conjunct2, THEN conjunct2, THEN mp, OF f]
  note ad = U [THEN conjunct1]
  note run = U [THEN conjunct2, THEN conjunct2, THEN spec, THEN mp, OF hc]
  from rm ad run h1 h3 show ?thesis
    by (simp add: demo_env_def demo_settings_def)
qed

text \<open>
  C7. For a row reported for a watched subdirectory whose path contains \<open>.DS_Store\<close>,
  whatever its three statuses, the invocation issues no \<open>add\<close> and no \<open>remove\<close> on
  that path (under \<open>separated\<close>, as for C1).
\<close>

theorem SyncBlog_skips_noise:
  assumes "separated E (root E S)"
    and "sub = ''public'' \<or> sub = ''content''"
    and "(filepath, head, worktreeStatus, stage) \<in> set (reported E (root E S) sub)"
    and "includes_str filepath ''.DS_Store''"
  shows "filter (touches (path_join E sub filepath)) (calls (SyncBlog E S)) = []"
proof -
  let ?pub = "map (\<lambda>row. path_join E ''public'' (fst row)) (reported E (root E S) ''public'')"
  let ?con = "map (\<lambda>row. path_join E ''content'' (fst row)) (reported E (root E S) ''content'')"
  from assms(1) have d: "distinct ?pub" "distinct ?con" "set ?pub \<inter> set ?con = {}"
    by (simp_all add: separated_def)
  from assms(2) have
    "filter (touches (path_join E sub filepath)) (issued E (root E S) ''public'') = [] \<and>
     filter (touches (path_join E sub filepath)) (issued E (root E S) ''content'') = []"
  proof
    assume sub: "sub = ''public''"
    with assms(3) have "path_join E sub filepath \<in> set ?pub" by force
    with d(3) have "path_join E sub filepath \<notin> set ?con" by blast
    then have "\<forall>row\<in>set (reported E (root E S) ''content'').
        path_join E ''content'' (fst row) \<noteq> path_join E sub filepath"
      by (rule notin_map_neq)
    then have "filter (touches (path_join E sub filepath)) (issued E (root E S) ''content'') = []"
      unfolding issued_def by (rule filter_touches_none)
    moreover have "filter (touches (path_join E sub filepath)) (issued E (root E S) ''public'') = []"
      unfolding issued_def sub
      using filter_touches_one [OF d(1) assms(3) [unfolded sub], of "root E S"] assms(4)
      by simp
    ultimately show ?thesis by simp
  next
    assume sub: "sub = ''content''"
    with assms(3) have "path_join E sub filepath \<in> set ?con" by force
    with d(3) have "path_join E sub filepath \<notin> set ?pub" by blast
    then have "\<forall>row\<in>set (reported E (root E S) ''public'').
        path_join E ''public'' (fst row) \<noteq> path_join E sub filepath"
      by (rule notin_map_neq)
    then have "filter (touches (path_join E sub filepath)) (issued E (root E S) ''public'') = []"
      unfolding issued_def by (rule filter_touches_none)
    moreover have "filter (touches (path_join E sub filepath)) (issued E (root E S) ''content'') = []"
      unfolding issued_def sub
      using filter_touches_one [OF d(2) assms(3) [unfolded sub], of "root E S"] assms(4)
      by simp
    ultimately show ?thesis by simp
  qed
  then show ?thesis by (simp add: filter_touches_calls)
qed

theorem SyncBlog_skips_noise_witness:
  "separated (demo_env demo_rows demo_posts Fulfilled None None) ''/vault/blog'' \<and>
   (''.DS_Store'', 0, 2, 0) \<in>
     set (reported (demo_env demo_rows demo_posts Fulfilled None None) ''/vault/blog'' ''public'') \<and>
   includes_str ''.DS_Store'' ''.DS_Store'' \<and>
   filter (touches ''public/.DS_Store'')
     (calls (SyncBlog (demo_env demo_rows demo_posts Fulfilled None None) demo_settings)) = []"
proof -
  let ?E = "demo_env demo_rows demo_posts Fulfilled None None"
  have r: "root ?E demo_settings = ''/vault/blog''"
    by (simp add: demo_env_def demo_settings_def)
  have h1: "separated ?E (root ?E demo_settings)"
    by (simp add: separated_def reported_def demo)
  have h3: "(''.DS_Store'', 0, 2, 0) \<in> set (reported ?E (root ?E demo_settings) ''public'')"
    by (simp add: reported_def demo)
  have h4: "includes_str ''.DS_Store'' ''.DS_Store''"
    by simp
  have a: "filter (touches (path_join ?E ''public'' ''.DS_Store'')) (calls (SyncBlog ?E demo_settings)) = []"
    by (rule SyncBlog_skips_noise [OF h1 _ h3 h4]) simp
  have pj: "path_join ?E ''public'' ''.DS_Store'' = ''public/.DS_Store''"
    by (simp add: demo_env_def)
  from h1 h3 h4 a show ?thesis
    unfolding r pj by simp
qed

text \<open>
  C8, as stated, fails: the token field of the settings form shows the stored token as it is.
\<close>

theorem display_token_counterexample:
  "githubPersonalAccessToken demo_settings = ''ghp_s3cret'' \<and>
   name (display demo_settings ! 2) = ''GitHub Personal Access Token'' \<and>
   shown (component (display demo_settings ! 2)) = ''ghp_s3cret''"
  by (simp add: display_def demo_settings_def shown_def onChange_def setValue_def
      setPlaceholder_def TextComponent_def)

text \<open>
  C8, amended. The third setting of the form, named \<open>GitHub Personal Access Token\<close>,
  shows the stored access token unmasked: all six settings are inputs of type \<open>text\<close>.
\<close>

theorem display_token_field:
  "name (display S ! 2) = ''GitHub Personal Access Token'' \<and>
   shown (component (display S ! 2)) = githubPersonalAccessToken S \<and>
   map (\<lambda>s. inputEl_type (component s)) (display S) = replicate 6 ''text''"
  by (simp add: display_def shown_def onChange_def setValue_def setPlaceholder_def
      TextComponent_def numeral_eq_Suc)

text \<open>
  C9. The first call is the status computation on the repository directory joined with
  \<open>public\<close>, and every status computation is on that directory or on the one joined with
  \<open>content\<close>. Every \<open>add\<close> and \<open>remove\<close> is on the repository directory itself,
  with a file path made of the name of a subdirectory joined with a path that the status
  computation of that subdirectory reported.
\<close>

theorem SyncBlog_directories:
  "(\<exists>cs. calls (SyncBlog E S) = StatusMatrix (path_join E (root E S) ''public'') # cs) \<and>
   (\<forall>c\<in>set (calls (SyncBlog E S)).
      (is_StatusMatrix c \<longrightarrow>
         c = StatusMatrix (path_join E (root E S) ''public'') \<or>
         c = StatusMatrix (path_join E (root E S) ''content'')) \<and>
      (per_path c \<longrightarrow>
         (\<exists>sub\<in>{''public'', ''content''}.
            \<exists>row\<in>set (rows_of (git_statusMatrix E (path_join E (root E S) sub))).
              c = Add (root E S) (path_join E sub (fst row)) \<or>
              c = Remove (root E S) (path_join E sub (fst row)))))"
proof (intro conjI ballI impI)
  show "\<exists>cs. calls (SyncBlog E S) = StatusMatrix (path_join E (root E S) ''public'') # cs"
    by (simp add: calls_SyncBlog fst_stage_step fst_stage_subdir)
next
  fix c assume c: "c \<in> set (calls (SyncBlog E S))" and k: "is_StatusMatrix c"
  from k have "c \<notin> set (later_calls E S)"
    using later_calls_kind [of c E S] by (cases c) auto
  moreover from k have "c \<notin> set (issued E (root E S) sub)" for sub
    using issued_per_path [of c E "root E S" sub] by (cases c) (auto simp: per_path_def)
  ultimately show "c = StatusMatrix (path_join E (root E S) ''public'') \<or>
      c = StatusMatrix (path_join E (root E S) ''content'')"
    using c by (auto simp: calls_SyncBlog fst_stage_step fst_stage_subdir split: if_splits)
next
  fix c assume c: "c \<in> set (calls (SyncBlog E S))" and k: "per_path c"
  from k have "c \<notin> set (later_calls E S)"
    using later_calls_kind [of c E S] by (cases c) (auto simp: per_path_def)
  with c k have "c \<in> set (issued E (root E S) ''public'') \<or> c \<in> set (issued E (root E S) ''content'')"
    by (auto simp: calls_SyncBlog fst_stage_step fst_stage_subdir per_path_def split: if_splits)
  then obtain sub where sub: "sub = ''public'' \<or> sub = ''content''"
    and "c \<in> set (issued E (root E S) sub)" by blast
  then obtain f h w s where row: "(f, h, w, s) \<in> set (reported E (root E S) sub)"
    and ceq: "c = (if w \<noteq> 0 then Add (root E S) (path_join E sub f)
                   else Remove (root E S) (path_join E sub f))"
    unfolding issued_mem by blast
  from ceq have "c = Add (root E S) (path_join E sub (fst (f, h, w, s))) \<or>
      c = Remove (root E S) (path_join E sub (fst (f, h, w, s)))"
    by (simp split: if_splits)
  with row have "\<exists>row\<in>set (rows_of (git_statusMatrix E (path_join E (root E S) sub))).
      c = Add (root E S) (path_join E sub (fst row)) \<or>
      c = Remove (root E S) (path_join E sub (fst row))"
    unfolding reported_def by blast
  with sub show "\<exists>sub\<in>{''public'', ''content''}.
      \<exists>row\<in>set (rows_of (git_statusMatrix E (path_join E (root E S) sub))).
        c = Add (root E S) (path_join E sub (fst row)) \<or>
        c = Remove (root E S) (path_join E sub (fst row))"
    by blast
qed

theorem SyncBlog_directories_witness:
  "StatusMatrix ''/vault/blog/content'' \<in>
     set (calls (SyncBlog (demo_env demo_rows demo_posts Fulfilled None None) demo_settings)) \<and>
   is_StatusMatrix (StatusMatrix ''/vault/blog/content'') \<and>
   Remove ''/vault/blog'' ''public/old.html'' \<in>
     set (calls (SyncBlog (demo_env demo_rows demo_posts Fulfilled None None) demo_settings)) \<and>
   per_path (Remove ''/vault/blog'' ''public/old.html'') \<and>
   (\<exists>sub\<in>{''public'', ''content''}.
      \<exists>row\<in>set (rows_of (git_statusMatrix (demo_env demo_rows demo_posts Fulfilled None None)
                            (''/vault/blog'' @ ''/'' @ sub))).
        Remove ''/vault/blog'' ''public/old.html'' = Add ''/vault/blog'' (sub @ ''/'' @ fst row) \<or>
        Remove ''/vault/blog'' ''public/old.html'' = Remove ''/vault/blog'' (sub @ ''/'' @ fst row))"
proof -
  let ?E = "demo_env demo_rows demo_posts Fulfilled None None"
  have r: "path_join ?E = (\<lambda>a b. a @ ''/'' @ b)"
    "getBasePath ?E @ ''/'' @ gitDirLocation demo_settings = ''/vault/blog''"
    by (simp_all add: demo_env_def demo_settings_def)
  have h1: "StatusMatrix ''/vault/blog/content'' \<in> set (calls (SyncBlog ?E demo_settings))"
    by (simp add: SyncBlog_def demo)
  have h2: "is_StatusMatrix (StatusMatrix ''/vault/blog/content'')"
    by simp
  have g1: "Remove ''/vault/blog'' ''public/old.html'' \<in> set (calls (SyncBlog ?E demo_settings))"
    by (simp add: SyncBlog_def demo)
  have g2: "per_path (Remove ''/vault/blog'' ''public/old.html'')"
    by (simp add: per_path_def)
  note a = SyncBlog_directories [of ?E demo_settings, THEN conjunct2, THEN bspec, OF g1,
      THEN conjunct2, THEN mp, OF g2, unfolded r]
  from h1 h2 g1 g2 a show ?thesis by (intro conjI)
qed



end
